theory Spec2Isabelle
  imports Complex_Main
begin

section \<open>The gesture-driven particle visualizer\<close>

text \<open>
  A shallow embedding of the frame loop of the Visualizer component (function
  \<open>render\<close>, with \<open>hexToRgba\<close> and \<open>initParticles\<close>) and of
  \<open>generateThemeFromGesture\<close>.

  Conventions of the model.
  \<^item> Arithmetic is exact: a JavaScript \<open>number\<close> that the frame receives (a
    time, a size, a field of the theme, a fingertip) is a \<open>real\<close>, and there
    is no rounding and no overflow. The position and the velocity of a
    particle, and what is computed from them, are of the type \<open>number\<close>, a real
    or \<open>NaN\<close>: the grid of CRYSTALLIZE can have the size zero, and the snap
    position is \<open>NaN\<close> then. The result of \<open>parseInt\<close>, which may be
    \<open>NaN\<close>, is an \<open>int option\<close> with \<open>None\<close> for \<open>NaN\<close>.
  \<^item> \<open>Math.random()\<close> is a sequence \<open>rnd :: nat \<Rightarrow> real\<close> together with the
    number of calls made so far; every function that draws random numbers
    takes that counter and returns the advanced one.
  \<^item> Mutation of a particle in place is a function from the old record to the
    new one; the refs and the React state of the component are fields of \<open>State\<close>.
  \<^item> A thrown \<open>TypeError\<close> is the value \<open>Inl TypeError\<close>; where the state
    written before the exception matters (the callback of a theme request),
    it is \<open>Some TypeError\<close> beside that state.
  \<^item> The width and height of a canvas are unsigned integers (the DOM attribute
    is an \<open>unsigned long\<close>), hence \<open>nat\<close>.
\<close>

subsection \<open>JavaScript primitives\<close>

datatype error = TypeError

text \<open>
  A number that may be \<open>NaN\<close>. An operation with an operand \<open>NaN\<close> gives
  \<open>NaN\<close>, and a comparison with \<open>NaN\<close> is false.
\<close>

datatype number = NaN | Num real

instantiation number :: "{plus, minus, times, ord}"
begin

definition plus_number :: "number \<Rightarrow> number \<Rightarrow> number" where
  "a + b = (case a of NaN \<Rightarrow> NaN | Num x \<Rightarrow> (case b of NaN \<Rightarrow> NaN | Num y \<Rightarrow> Num (x + y)))"

definition minus_number :: "number \<Rightarrow> number \<Rightarrow> number" where
  "a - b = (case a of NaN \<Rightarrow> NaN | Num x \<Rightarrow> (case b of NaN \<Rightarrow> NaN | Num y \<Rightarrow> Num (x - y)))"

definition times_number :: "number \<Rightarrow> number \<Rightarrow> number" where
  "a * b = (case a of NaN \<Rightarrow> NaN | Num x \<Rightarrow> (case b of NaN \<Rightarrow> NaN | Num y \<Rightarrow> Num (x * y)))"

definition less_number :: "number \<Rightarrow> number \<Rightarrow> bool" where
  "a < b = (case a of NaN \<Rightarrow> False | Num x \<Rightarrow> (case b of NaN \<Rightarrow> False | Num y \<Rightarrow> x < y))"

definition less_eq_number :: "number \<Rightarrow> number \<Rightarrow> bool" where
  "a \<le> b = (case a of NaN \<Rightarrow> False | Num x \<Rightarrow> (case b of NaN \<Rightarrow> False | Num y \<Rightarrow> x \<le> y))"

instance ..

end

definition hypot :: "real \<Rightarrow> real \<Rightarrow> real" where
  "hypot a b = sqrt (a * a + b * b)"

text \<open>\<open>Math.hypot\<close>, \<open>Math.sin\<close> and \<open>Math.cos\<close> on numbers that may be \<open>NaN\<close>.\<close>

definition nhypot :: "number \<Rightarrow> number \<Rightarrow> number" where
  "nhypot a b = (case a of NaN \<Rightarrow> NaN | Num x \<Rightarrow> (case b of NaN \<Rightarrow> NaN | Num y \<Rightarrow> Num (hypot x y)))"

definition nsin :: "number \<Rightarrow> number" where
  "nsin a = (case a of NaN \<Rightarrow> NaN | Num x \<Rightarrow> Num (sin x))"

definition ncos :: "number \<Rightarrow> number" where
  "ncos a = (case a of NaN \<Rightarrow> NaN | Num x \<Rightarrow> Num (cos x))"

text \<open>\<open>Math.round\<close> rounds to the nearest integer, halves towards plus infinity.\<close>

definition js_round :: "real \<Rightarrow> real" where
  "js_round v = of_int \<lfloor>v + 1 / 2\<rfloor>"

text \<open>
  \<open>Math.round(v / cell) * cell\<close>. With the cell size zero the quotient is an
  infinity or \<open>NaN\<close>, its rounding is the same, and the product with zero is
  \<open>NaN\<close>, whatever \<open>v\<close> is.
\<close>

definition snap :: "number \<Rightarrow> real \<Rightarrow> number" where
  "snap v cell =
    (if cell = 0 then NaN
     else (case v of NaN \<Rightarrow> NaN | Num x \<Rightarrow> Num (js_round (x / cell) * cell)))"

text \<open>\<open>xs[i]\<close> for an integral index: \<open>undefined\<close> (here \<open>None\<close>) outside the array.\<close>

definition index :: "'a list \<Rightarrow> int \<Rightarrow> 'a option" where
  "index xs i = (if 0 \<le> i \<and> i < int (length xs) then Some (xs ! nat i) else None)"

text \<open>
  A JavaScript string is a sequence of UTF-16 code units, here natural
  numbers; \<open>ascii\<close> gives the code units of a literal of ASCII characters.
  The colours, which \<open>parseInt\<close> reads, are such sequences. The mode, the
  description and the status text are only compared, stored and shown: they
  are strings of ASCII characters, of the type \<open>string\<close>.
\<close>

type_synonym jsstring = "nat list"

definition ascii :: "string \<Rightarrow> jsstring" where
  "ascii s = map of_char s"

text \<open>\<open>s.slice(a, b)\<close> for constant non-negative bounds: clipped to the string.\<close>

definition slice :: "nat \<Rightarrow> nat \<Rightarrow> jsstring \<Rightarrow> jsstring" where
  "slice a b s = take (b - a) (drop a s)"

text \<open>
  The white space that \<open>parseInt\<close> skips (ECMAScript's WhiteSpace and
  LineTerminator): TAB, LF, VT, FF, CR, SP, U+00A0, U+1680, U+2000 to U+200A,
  U+2028, U+2029, U+202F, U+205F, U+3000 and U+FEFF.
\<close>

definition isWhiteSpace :: "nat \<Rightarrow> bool" where
  "isWhiteSpace n =
    ((9 \<le> n \<and> n \<le> 13) \<or> n = 32 \<or> n = 160 \<or> n = 5760 \<or> (8192 \<le> n \<and> n \<le> 8202)
     \<or> n = 8232 \<or> n = 8233 \<or> n = 8239 \<or> n = 8287 \<or> n = 12288 \<or> n = 65279)"

text \<open>The digits \<open>0\<close> to \<open>9\<close>, \<open>a\<close> to \<open>f\<close> and \<open>A\<close> to \<open>F\<close>, and their values.\<close>

definition isHexDigit :: "nat \<Rightarrow> bool" where
  "isHexDigit n = ((48 \<le> n \<and> n \<le> 57) \<or> (97 \<le> n \<and> n \<le> 102) \<or> (65 \<le> n \<and> n \<le> 70))"

definition digitValue :: "nat \<Rightarrow> int" where
  "digitValue n = int (if n \<le> 57 then n - 48 else if 97 \<le> n then n - 87 else n - 55)"

fun hexValue :: "int \<Rightarrow> jsstring \<Rightarrow> int" where
  "hexValue acc [] = acc"
| "hexValue acc (c # cs) = hexValue (16 * acc + digitValue c) cs"

text \<open>
  \<open>parseInt(s, 16)\<close> as ECMAScript defines it: leading white space is skipped,
  one sign is read, a prefix \<open>0x\<close> or \<open>0X\<close> is dropped, and the longest run of
  hexadecimal digits is the value; with no digit the result is \<open>NaN\<close>.
\<close>

definition parseInt16 :: "jsstring \<Rightarrow> int option" where
  "parseInt16 s =
    (let s1 = dropWhile isWhiteSpace s;
         sign = (case s1 of [] \<Rightarrow> 1 | c # _ \<Rightarrow> if c = of_char CHR ''-'' then - 1 else (1::int));
         s2 = (case s1 of
                 [] \<Rightarrow> s1
               | c # cs \<Rightarrow> if c = of_char CHR ''+'' \<or> c = of_char CHR ''-'' then cs else s1);
         s3 = (case s2 of
                 a # b # cs \<Rightarrow>
                   if a = of_char CHR ''0'' \<and> (b = of_char CHR ''x'' \<or> b = of_char CHR ''X'')
                   then cs else s2
               | _ \<Rightarrow> s2);
         z = takeWhile isHexDigit s3
     in if z = [] then None else Some (sign * hexValue 0 z))"

text \<open>\<open>s.toUpperCase()\<close> for a string of ASCII characters.\<close>

definition toUpperCase :: "string \<Rightarrow> string" where
  "toUpperCase s =
    map (\<lambda>c. let n = (of_char c :: nat) in if 97 \<le> n \<and> n \<le> 122 then char_of (n - 32) else c) s"

subsection \<open>Colours\<close>

text \<open>
  The value of the template literal \<open>rgba(${r}, ${g}, ${b}, ${alpha})\<close>: its four
  interpolated numbers. A channel is \<open>None\<close> where the text reads \<open>NaN\<close>.
\<close>

datatype rgba = Rgba "int option" "int option" "int option" real

definition hexToRgba :: "jsstring \<Rightarrow> real \<Rightarrow> rgba" where
  "hexToRgba hex alpha =
    (let r = parseInt16 (slice 1 3 hex);
         g = parseInt16 (slice 3 5 hex);
         b = parseInt16 (slice 5 7 hex)
     in Rgba r g b alpha)"

subsection \<open>The data model (types.ts)\<close>

record Point =
  pt_x :: real
  pt_y :: real

datatype ParticleType = STRUCTURE | STARDUST

record Particle =
  p_x :: number
  p_y :: number
  p_vx :: number
  p_vy :: number
  p_size :: real
  p_color :: jsstring
  p_life :: real
  p_maxLife :: real
  p_type :: ParticleType

text \<open>
  \<open>InteractionMode\<close> is a string enum, and a theme that was parsed from the
  service's JSON carries whatever string the service sent: the mode is a string.
\<close>

definition WEAVE :: string where "WEAVE = ''WEAVE''"
definition CRYSTALLIZE :: string where "CRYSTALLIZE = ''CRYSTALLIZE''"
definition FRAGMENT :: string where "FRAGMENT = ''FRAGMENT''"
definition VOID :: string where "VOID = ''VOID''"
definition RESONANCE :: string where "RESONANCE = ''RESONANCE''"

record VisualTheme =
  primaryColor :: jsstring
  secondaryColor :: jsstring
  mode :: string
  tension :: real
  entropy :: real
  geometryScale :: real
  description :: "string option"

definition DEFAULT_THEME :: VisualTheme where
  "DEFAULT_THEME =
    \<lparr>primaryColor = ascii ''#D4AF37'', secondaryColor = ascii ''#1A237E'', mode = WEAVE,
     tension = 1,
     entropy = 0.2, geometryScale = 100, description = Some ''Awaiting Input''\<rparr>"


subsection \<open>The theme service (generateThemeFromGesture)\<close>

text \<open>
  What \<open>ai.models.generateContent\<close> does is outside the program: the promise
  rejects, or it resolves with a response whose \<open>text\<close> is a string or
  \<open>undefined\<close>.
\<close>

datatype reply = Rejects | Resolves "string option"

text \<open>
  What \<open>JSON.parse\<close> does with a text: it throws a \<open>SyntaxError\<close>, or it
  returns a value, which the code casts to \<open>VisualTheme\<close> unchecked. A parsed
  value that is falsy (\<open>null\<close>, \<open>0\<close>, \<open>false\<close>, the empty string) is
  \<open>Parsed None\<close>: the only reader of the result tests its truthiness. Any
  other value is a theme as it was sent: its mode is whatever string the text
  holds, and its description is \<open>None\<close> when the text has no string there.
  (The colours and the three numbers of a parsed theme are taken to be
  present and of their types.)
\<close>

datatype parsed = SyntaxError | Parsed "VisualTheme option"

text \<open>
  The three arguments only enter the prompt, so the reply does not depend on
  them inside the model. \<open>None\<close> is the result \<open>null\<close>. Every exception is
  caught by the \<open>try\<close> block, so there is no error result.
\<close>

definition generateThemeFromGesture ::
  "(string \<Rightarrow> parsed) \<Rightarrow> reply \<Rightarrow> nat \<Rightarrow> real \<Rightarrow> real \<Rightarrow> VisualTheme option" where
  "generateThemeFromGesture JSON_parse response handCount movementIntensity spread =
    (case response of
       Rejects \<Rightarrow> None
     | Resolves None \<Rightarrow> None
     | Resolves (Some text) \<Rightarrow>
         if text = [] then None
         else (case JSON_parse text of SyntaxError \<Rightarrow> None | Parsed data \<Rightarrow> data))"

subsection \<open>The state of the component and the theme controller\<close>

text \<open>
  What step 1 of \<open>render\<close> hands on when the landmarker is ready: the number
  of hands, the fingertips in canvas pixels and the sum of the spreads. (The
  arithmetic on the landmarks, which are the output of the hand tracker, is
  summarised by these three results; the skeleton is only drawn.)
\<close>

record Detection =
  handCount :: nat
  detectedTips :: "Point list"
  totalSpread :: real

record State =
  lastTime :: real
  lastThemeUpdate :: real
  theme :: VisualTheme
  geminiStatus :: string
  handPoints :: "Point list"
  particles :: "Particle list"
  randomCalls :: nat

record Request =
  req_handCount :: nat
  req_movementIntensity :: real
  req_spread :: real

text \<open>
  Step 2 of \<open>render\<close> (Gemini Trigger): the requests issued in this frame and
  the state after it.
\<close>

definition geminiTrigger :: "real \<Rightarrow> Detection \<Rightarrow> State \<Rightarrow> State \<times> Request list" where
  "geminiTrigger t d st =
    (if handCount d > 0 \<and> t - lastThemeUpdate st > 4000 then
       (let avgSpread = totalSpread d / real (handCount d);
            normalizedSpread = min (max ((avgSpread - 0.15) * 3) 0) 1
        in (st\<lparr>lastThemeUpdate := t, geminiStatus := ''CALCULATING GEOMETRY...''\<rparr>,
            [\<lparr>req_handCount = handCount d, req_movementIntensity = 0.5,
              req_spread = normalizedSpread\<rparr>]))
     else (st, []))"

text \<open>
  The callback of \<open>then\<close>, run when the promise of a request resolves: the
  state after it and the exception that it throws, if any. \<open>setTheme\<close> has
  been called when \<open>newTheme.description.toUpperCase()\<close> is evaluated, so a
  theme without a description replaces the old one before the \<open>TypeError\<close>.
\<close>

definition onThemeResult :: "VisualTheme option \<Rightarrow> State \<Rightarrow> State \<times> error option" where
  "onThemeResult newTheme st =
    (case newTheme of
       None \<Rightarrow> (st, None)
     | Some t \<Rightarrow>
         (case description t of
            None \<Rightarrow> (st\<lparr>theme := t\<rparr>, Some TypeError)
          | Some s \<Rightarrow> (st\<lparr>theme := t, geminiStatus := toUpperCase s\<rparr>, None)))"

subsection \<open>One particle in one frame\<close>

text \<open>The constants of one call of \<open>render\<close>, as its local variables name them.\<close>

record Frame =
  time :: real
  deltaTime :: real
  width :: nat
  height :: nat
  dpr :: real
  tips :: "Point list"
  currentTheme :: VisualTheme

definition scaleFactor :: "Frame \<Rightarrow> real" where
  "scaleFactor fr = dpr fr"

definition geometryDistance :: "Frame \<Rightarrow> real" where
  "geometryDistance fr = geometryScale (currentTheme fr) * scaleFactor fr"

definition interactionDistance :: "Frame \<Rightarrow> real" where
  "interactionDistance fr = 300 * scaleFactor fr"

text \<open>
  Life and respawn. With targets the random calls are, in order: the index
  of the source, the two jitters, the two velocities; without targets: the
  two coordinates.
\<close>

definition respawn :: "(nat \<Rightarrow> real) \<Rightarrow> Frame \<Rightarrow> Particle \<Rightarrow> nat \<Rightarrow> error + Particle \<times> nat" where
  "respawn rnd fr p k =
    (let p1 = p\<lparr>p_life := p_life p - deltaTime fr * 0.05\<rparr> in
     if p_life p1 \<le> 0 then
       (let p2 = p1\<lparr>p_life := p_maxLife p1\<rparr> in
        if length (tips fr) > 0 then
          (case index (tips fr) \<lfloor>rnd k * real (length (tips fr))\<rfloor> of
             None \<Rightarrow> Inl TypeError
           | Some source \<Rightarrow>
               Inr (p2\<lparr>p_x := Num (pt_x source + (rnd (k + 1) - 0.5) * 50 * scaleFactor fr),
                       p_y := Num (pt_y source + (rnd (k + 2) - 0.5) * 50 * scaleFactor fr),
                       p_vx := Num ((rnd (k + 3) - 0.5)
                                 * (if p_type p2 = STRUCTURE then 2 else 0.5) * scaleFactor fr),
                       p_vy := Num ((rnd (k + 4) - 0.5)
                                 * (if p_type p2 = STRUCTURE then 2 else 0.5) * scaleFactor fr)\<rparr>,
                    k + 5))
        else
          Inr (p2\<lparr>p_x := Num (rnd k * real (width fr)),
                  p_y := Num (rnd (k + 1) * real (height fr))\<rparr>,
               k + 2))
     else Inr (p1, k))"

text \<open>
  The scan for the closest target, from the sentinel distance 99999. The
  variable \<open>closestDist\<close> is assigned a distance only when the distance
  compared less, so it is never \<open>NaN\<close>: for a particle at \<open>NaN\<close> every
  comparison is false and the sentinel and the first target stay.
\<close>

fun closestLoop :: "Particle \<Rightarrow> Point list \<Rightarrow> real \<times> Point \<Rightarrow> real \<times> Point" where
  "closestLoop p [] acc = acc"
| "closestLoop p (t # ts) (closestDist, target) =
    (case nhypot (Num (pt_x t) - p_x p) (Num (pt_y t) - p_y p) of
       NaN \<Rightarrow> closestLoop p ts (closestDist, target)
     | Num d \<Rightarrow> closestLoop p ts (if d < closestDist then (d, t) else (closestDist, target)))"

definition forceFactor :: "real \<Rightarrow> real \<Rightarrow> real" where
  "forceFactor closestDist interactionDist = 1 - closestDist / interactionDist"

text \<open>The branch of a STRUCTURE particle inside the interaction distance.\<close>

definition structureForce ::
  "Frame \<Rightarrow> Particle \<Rightarrow> number \<Rightarrow> number \<Rightarrow> real \<Rightarrow> real \<Rightarrow> number \<times> number" where
  "structureForce fr p dx dy closestDist force =
    (let th = currentTheme fr in
     if mode th = WEAVE then
       (Num 0 + dx * Num 0.02 * Num (tension th) * Num force - dy * Num 0.05 * Num force,
        Num 0 + dy * Num 0.02 * Num (tension th) * Num force + dx * Num 0.05 * Num force)
     else if mode th = CRYSTALLIZE then
       (let snapSize = geometryDistance fr;
            snapX = snap (p_x p) snapSize;
            snapY = snap (p_y p) snapSize
        in (Num 0 + (snapX - p_x p) * Num 0.05 + dx * Num 0.005,
            Num 0 + (snapY - p_y p) * Num 0.05 + dy * Num 0.005))
     else if mode th = FRAGMENT then
       (if closestDist < 200 * scaleFactor fr
        then (Num 0 - dx * Num 0.1 * Num force, Num 0 - dy * Num 0.1 * Num force)
        else (Num 0, Num 0))
     else if mode th = VOID then
       (Num 0 + dx * Num 0.08 * Num force, Num 0 + dy * Num 0.08 * Num force)
     else
       (Num 0 + nsin (Num (time fr * 0.01) + p_y p * Num 0.1) * Num 0.5 * Num (scaleFactor fr),
        Num 0 + ncos (Num (time fr * 0.01) + p_x p * Num 0.1) * Num 0.5 * Num (scaleFactor fr)))"

text \<open>The force on a particle and the advanced count of random calls.\<close>

definition computeForce ::
  "(nat \<Rightarrow> real) \<Rightarrow> Frame \<Rightarrow> Particle \<Rightarrow> nat \<Rightarrow> (number \<times> number) \<times> nat" where
  "computeForce rnd fr p k =
    (case tips fr of
       [] \<Rightarrow>
         ((Num 0 + nsin (p_y p * Num 0.01 + Num (time fr * 0.0005)) * Num 0.01
             * Num (scaleFactor fr),
           Num 0), k)
     | t0 # _ \<Rightarrow>
         (let (closestDist, target) = closestLoop p (tips fr) (99999, t0);
              dx = Num (pt_x target) - p_x p;
              dy = Num (pt_y target) - p_y p
          in if closestDist < interactionDistance fr then
               (let force = forceFactor closestDist (interactionDistance fr) in
                if p_type p = STRUCTURE then
                  (structureForce fr p dx dy closestDist force, k)
                else
                  (let fx = Num 0
                         + Num ((rnd k - 0.5) * entropy (currentTheme fr) * scaleFactor fr);
                       fy = Num 0
                         + Num ((rnd (k + 1) - 0.5) * entropy (currentTheme fr) * scaleFactor fr)
                   in if closestDist < 300 * scaleFactor fr
                      then ((fx + dx * Num 0.002 * Num force, fy + dy * Num 0.002 * Num force),
                            k + 2)
                      else ((fx, fy), k + 2)))
             else ((Num 0, Num 0), k)))"

definition damping :: "ParticleType \<Rightarrow> real" where
  "damping ty = (if ty = STRUCTURE then 0.92 else 0.98)"

definition integrate :: "number \<times> number \<Rightarrow> Particle \<Rightarrow> Particle" where
  "integrate f p =
    (let vx = (p_vx p + fst f) * Num (damping (p_type p));
         vy = (p_vy p + snd f) * Num (damping (p_type p))
     in p\<lparr>p_vx := vx, p_vy := vy, p_x := p_x p + vx, p_y := p_y p + vy\<rparr>)"

text \<open>
  The two tests of one coordinate, one after the other. Both are false of
  \<open>NaN\<close>, which stays.
\<close>

definition wrapCoord :: "number \<Rightarrow> real \<Rightarrow> number" where
  "wrapCoord v limit =
    (let v1 = (if v < Num 0 then Num limit else v) in if v1 > Num limit then Num 0 else v1)"

definition wrap :: "Frame \<Rightarrow> Particle \<Rightarrow> Particle" where
  "wrap fr p =
    p\<lparr>p_x := wrapCoord (p_x p) (real (width fr)), p_y := wrapCoord (p_y p) (real (height fr))\<rparr>"

definition updateParticle ::
  "(nat \<Rightarrow> real) \<Rightarrow> Frame \<Rightarrow> Particle \<Rightarrow> nat \<Rightarrow> error + Particle \<times> nat" where
  "updateParticle rnd fr p k =
    (case respawn rnd fr p k of
       Inl e \<Rightarrow> Inl e
     | Inr (p1, k1) \<Rightarrow>
         (let (f, k2) = computeForce rnd fr p1 k1 in Inr (wrap fr (integrate f p1), k2)))"

subsection \<open>Drawing a particle\<close>

text \<open>
  The calls made on the 2-D context for one particle: a filled square, a
  stroked line between two particles (style, line width, end points), a
  filled circle (style, centre, radius).
\<close>

datatype draw =
  FillRect rgba number number real real
| StrokeLine rgba real number number number number
| FillArc rgba number number real

definition particleAlpha :: "Particle \<Rightarrow> real" where
  "particleAlpha p = min (p_life p / 50) 1 * (if p_type p = STARDUST then 0.6 else 1.0)"

definition baseColor :: "Frame \<Rightarrow> Particle \<Rightarrow> jsstring" where
  "baseColor fr p =
    (if p_type p = STRUCTURE then primaryColor (currentTheme fr)
     else secondaryColor (currentTheme fr))"

text \<open>The inner loop over the candidates \<open>p2\<close> that follow the particle.\<close>

fun connections :: "Frame \<Rightarrow> Particle \<Rightarrow> Particle list \<Rightarrow> draw list" where
  "connections fr p [] = []"
| "connections fr p (p2 # rest) =
    (if p_type p2 = STRUCTURE then
       (case nhypot (p_x p2 - p_x p) (p_y p2 - p_y p) of
          NaN \<Rightarrow> []
        | Num d \<Rightarrow>
            if d < geometryDistance fr then
              [StrokeLine
                 (hexToRgba (baseColor fr p)
                    (particleAlpha p * (1 - d / geometryDistance fr) * 0.5))
                 (0.5 * dpr fr) (p_x p) (p_y p) (p_x p2) (p_y p2)]
            else [])
     else [])
    @ connections fr p rest"

text \<open>
  \<open>later\<close> are the particles after index \<open>i\<close>, not yet updated in this frame;
  \<open>j\<close> runs from \<open>i + 1\<close> below \<open>min (i + 15) n\<close>, so over the first 14 of them.
\<close>

definition drawParticle :: "Frame \<Rightarrow> nat \<Rightarrow> Particle \<Rightarrow> Particle list \<Rightarrow> draw list" where
  "drawParticle fr i p later =
    (if p_type p = STRUCTURE then
       FillRect (hexToRgba (baseColor fr p) (particleAlpha p)) (p_x p) (p_y p) (p_size p) (p_size p)
       # (if i mod 2 = 0 then connections fr p (take 14 later) else [])
     else
       [FillArc (hexToRgba (baseColor fr p) (particleAlpha p * 0.5)) (p_x p) (p_y p) (p_size p)])"

subsection \<open>The frame\<close>

text \<open>
  Step 5 of \<open>render\<close>, the loop over the particles from index \<open>i\<close> on: the
  updated particles, what was drawn, and the count of random calls.
\<close>

fun particleLoop ::
  "(nat \<Rightarrow> real) \<Rightarrow> Frame \<Rightarrow> nat \<Rightarrow> Particle list \<Rightarrow> nat
    \<Rightarrow> error + Particle list \<times> draw list \<times> nat" where
  "particleLoop rnd fr i [] k = Inr ([], [], k)"
| "particleLoop rnd fr i (p # later) k =
    (case updateParticle rnd fr p k of
       Inl e \<Rightarrow> Inl e
     | Inr (p', k') \<Rightarrow>
         (case particleLoop rnd fr (i + 1) later k' of
            Inl e \<Rightarrow> Inl e
          | Inr (ps, cmds, k'') \<Rightarrow> Inr (p' # ps, drawParticle fr i p' later @ cmds, k'')))"

text \<open>
  What one call of \<open>render\<close> receives: its argument, the canvas, the device
  pixel ratio and, when the hand landmarker is ready, what it detected.
\<close>

record Input =
  timestamp :: real
  canvasWidth :: nat
  canvasHeight :: nat
  devicePixelRatio :: real
  detection :: "Detection option"

text \<open>
  Step 1 of \<open>render\<close> with the trigger of step 2: when the landmarker is ready
  the fingertips replace \<open>handPoints\<close>, otherwise the old ones stay.
\<close>

definition handDetection :: "Input \<Rightarrow> State \<Rightarrow> State \<times> Request list" where
  "handDetection inp st =
    (case detection inp of
       None \<Rightarrow> (st, [])
     | Some d \<Rightarrow> geminiTrigger (timestamp inp) d (st\<lparr>handPoints := detectedTips d\<rparr>))"

text \<open>The local constants of the call; \<open>dpr\<close> is \<open>window.devicePixelRatio || 1\<close>.\<close>

definition frameOf :: "Input \<Rightarrow> real \<Rightarrow> State \<Rightarrow> Frame" where
  "frameOf inp dt st =
    \<lparr>time = timestamp inp, deltaTime = dt, width = canvasWidth inp,
     height = canvasHeight inp,
     dpr = (if devicePixelRatio inp = 0 then 1 else devicePixelRatio inp),
     tips = handPoints st, currentTheme = theme st\<rparr>"

text \<open>
  One frame: the new state, the theme requests issued and the particles
  drawn. (The background fill and the hand skeleton, steps 3 and 4, change no
  state and are left out of the drawing.)
\<close>

definition render ::
  "(nat \<Rightarrow> real) \<Rightarrow> Input \<Rightarrow> State \<Rightarrow> error + State \<times> Request list \<times> draw list" where
  "render rnd inp st =
    (let dt = timestamp inp - lastTime st;
         (st2, reqs) = handDetection inp (st\<lparr>lastTime := timestamp inp\<rparr>);
         fr = frameOf inp dt st2
     in case particleLoop rnd fr 0 (particles st2) (randomCalls st2) of
          Inl e \<Rightarrow> Inl e
        | Inr (ps, cmds, k) \<Rightarrow> Inr (st2\<lparr>particles := ps, randomCalls := k\<rparr>, reqs, cmds))"



subsection \<open>Initialisation (initParticles)\<close>




subsection \<open>Concrete inputs\<close>

text \<open>
  A random source that always returns one half, two particles, and frames
  with and without a fingertip, used to run the definitions.
\<close>

definition rndHalf :: "nat \<Rightarrow> real" where
  "rndHalf k = 1 / 2"

definition rndQuarter :: "nat \<Rightarrow> real" where
  "rndQuarter k = 1 / 4"

definition weaver :: Particle where
  "weaver =
    \<lparr>p_x = Num 10, p_y = Num 20, p_vx = Num 7, p_vy = Num (- 3), p_size = 2,
     p_color = ascii ''#D4AF37'',
     p_life = 1, p_maxLife = 120, p_type = STRUCTURE\<rparr>"

definition dust :: Particle where
  "dust =
    \<lparr>p_x = Num 300, p_y = Num 40, p_vx = Num (- 400), p_vy = Num 1, p_size = 1,
     p_color = ascii ''#1A237E'',
     p_life = 90, p_maxLife = 250, p_type = STARDUST\<rparr>"

definition fingertip :: Point where
  "fingertip = \<lparr>pt_x = 13, pt_y = 24\<rparr>"

definition emptyFrame :: Frame where
  "emptyFrame =
    \<lparr>time = 0, deltaTime = 40, width = 800, height = 600, dpr = 1, tips = [],
     currentTheme = DEFAULT_THEME\<rparr>"

definition handFrame :: Frame where
  "handFrame = emptyFrame\<lparr>tips := [fingertip]\<rparr>"

definition oneHand :: Detection where
  "oneHand = \<lparr>handCount = 1, detectedTips = [fingertip], totalSpread = 0.3\<rparr>"

definition startState :: State where
  "startState =
    \<lparr>lastTime = 0, lastThemeUpdate = 0, theme = DEFAULT_THEME,
     geminiStatus = ''NEURAL LINK IDLE'', handPoints = [], particles = [weaver, dust],
     randomCalls = 0\<rparr>"

definition frameAt :: "real \<Rightarrow> Detection option \<Rightarrow> Input" where
  "frameAt t d =
    \<lparr>timestamp = t, canvasWidth = 800, canvasHeight = 600, devicePixelRatio = 1,
     detection = d\<rparr>"

subsection \<open>Predicates of the statements\<close>

text \<open>\<open>Math.random()\<close> returns a number in the half-open unit interval.\<close>

definition unitInterval :: "(nat \<Rightarrow> real) \<Rightarrow> bool" where
  "unitInterval rnd = (\<forall>k. 0 \<le> rnd k \<and> rnd k < 1)"

text \<open>The four numbers of an \<open>rgba\<close> text.\<close>

fun red :: "rgba \<Rightarrow> int option" where "red (Rgba r g b a) = r"

fun green :: "rgba \<Rightarrow> int option" where "green (Rgba r g b a) = g"

fun blue :: "rgba \<Rightarrow> int option" where "blue (Rgba r g b a) = b"

fun opacity :: "rgba \<Rightarrow> real" where "opacity (Rgba r g b a) = a"

text \<open>
  A colour in the words of the specification: all three channels of the
  \<open>rgba\<close> text are numbers.
\<close>

definition isColor :: "rgba \<Rightarrow> bool" where
  "isColor c = (red c \<noteq> None \<and> green c \<noteq> None \<and> blue c \<noteq> None)"

text \<open>
  The string has no character at position \<open>i\<close>, or one with which no
  hexadecimal number can start.
\<close>

definition noNumberAt :: "jsstring \<Rightarrow> nat \<Rightarrow> bool" where
  "noNumberAt hex i =
    (length hex \<le> i
     \<or> (\<not> isHexDigit (hex ! i) \<and> \<not> isWhiteSpace (hex ! i)
          \<and> hex ! i \<noteq> of_char CHR ''+'' \<and> hex ! i \<noteq> of_char CHR ''-''))"



text \<open>
  The style of a call on the context, and a style with the channels of the
  primary or of the secondary colour of a theme.
\<close>

fun styleOf :: "draw \<Rightarrow> rgba" where
  "styleOf (FillRect c x y w h) = c"
| "styleOf (StrokeLine c lw x1 y1 x2 y2) = c"
| "styleOf (FillArc c x y r) = c"

definition sameChannels :: "rgba \<Rightarrow> rgba \<Rightarrow> bool" where
  "sameChannels c d = (red c = red d \<and> green c = green d \<and> blue c = blue d)"

definition themeStyled :: "VisualTheme \<Rightarrow> draw \<Rightarrow> bool" where
  "themeStyled th cmd =
    (sameChannels (styleOf cmd) (hexToRgba (primaryColor th) 1)
     \<or> sameChannels (styleOf cmd) (hexToRgba (secondaryColor th) 1))"

text \<open>The same state with another colour stored in every particle.\<close>

definition recolour :: "jsstring \<Rightarrow> State \<Rightarrow> State" where
  "recolour c st = st\<lparr>particles := map (\<lambda>q. q\<lparr>p_color := c\<rparr>) (particles st)\<rparr>"

text \<open>
  A coordinate inside the closed interval from 0 to \<open>limit\<close>; \<open>NaN\<close> is not.
\<close>

definition inRange :: "real \<Rightarrow> number \<Rightarrow> bool" where
  "inRange limit v = (Num 0 \<le> v \<and> v \<le> Num limit)"



definition scannedDistance :: "Particle \<Rightarrow> Point list \<Rightarrow> real" where
  "scannedDistance p ts = fst (closestLoop p ts (99999, hd ts))"

definition scannedTarget :: "Particle \<Rightarrow> Point list \<Rightarrow> Point" where
  "scannedTarget p ts = snd (closestLoop p ts (99999, hd ts))"

text \<open>The same frame under a theme with another mode.\<close>

definition withMode :: "string \<Rightarrow> Frame \<Rightarrow> Frame" where
  "withMode m fr = fr\<lparr>currentTheme := (currentTheme fr)\<lparr>mode := m\<rparr>\<rparr>"

text \<open>
  A request with no result: the call of the service rejects (a network
  error), the response has no text or an empty one, or the text is no JSON.
\<close>

definition noResult :: "(string \<Rightarrow> parsed) \<Rightarrow> reply \<Rightarrow> bool" where
  "noResult JSON_parse response =
    (case response of
       Rejects \<Rightarrow> True
     | Resolves None \<Rightarrow> True
     | Resolves (Some text) \<Rightarrow> text = [] \<or> JSON_parse text = SyntaxError)"

text \<open>
  A response of the wrong shape: an object with the unknown mode \<open>SPIRAL\<close>
  and without a description, and a parser that reads it.
\<close>

definition spiralText :: string where
  "spiralText = ''{\"primaryColor\":\"#101010\",\"secondaryColor\":\"#202020\",\"mode\":\"SPIRAL\",\"tension\":1,\"entropy\":0,\"geometryScale\":50}''"

definition spiralTheme :: VisualTheme where
  "spiralTheme =
    \<lparr>primaryColor = ascii ''#101010'', secondaryColor = ascii ''#202020'', mode = ''SPIRAL'',
     tension = 1, entropy = 0, geometryScale = 50, description = None\<rparr>"

definition spiralJson :: "string \<Rightarrow> parsed" where
  "spiralJson text = (if text = spiralText then Parsed (Some spiralTheme) else SyntaxError)"

text \<open>
  A CRYSTALLIZE theme with the grid size zero, and a state under it with a
  hand in reach of the particle \<open>weaver\<close>.
\<close>

definition zeroGrid :: VisualTheme where
  "zeroGrid = DEFAULT_THEME\<lparr>mode := CRYSTALLIZE, geometryScale := 0\<rparr>"

definition zeroGridState :: State where
  "zeroGridState = startState\<lparr>theme := zeroGrid, particles := [weaver\<lparr>p_life := 80\<rparr>]\<rparr>"

section \<open>Properties\<close>

subsection \<open>Parsing a colour\<close>

lemma hexDigit_plain:
  assumes "isHexDigit c"
  shows "\<not> isWhiteSpace c" "c \<noteq> of_char CHR ''+''" "c \<noteq> of_char CHR ''-''"
    "c \<noteq> of_char CHR ''x''" "c \<noteq> of_char CHR ''X''"
  using assms by (auto simp: isHexDigit_def isWhiteSpace_def)

lemma digitValue_range:
  assumes "isHexDigit c"
  shows "0 \<le> digitValue c \<and> digitValue c \<le> 15"
  using assms by (auto simp: isHexDigit_def digitValue_def)

lemma parseInt16_two_digits:
  assumes "isHexDigit a" "isHexDigit b"
  shows "parseInt16 [a, b] = Some (16 * digitValue a + digitValue b)"
  using assms hexDigit_plain[OF assms(1)] hexDigit_plain[OF assms(2)]
  by (simp add: parseInt16_def Let_def)

lemma parseInt16_no_digit:
  assumes "\<not> isHexDigit c" "\<not> isWhiteSpace c" "c \<noteq> of_char CHR ''+''" "c \<noteq> of_char CHR ''-''"
  shows "parseInt16 (c # cs) = None"
proof -
  have "c \<noteq> of_char CHR ''0''" using assms(1) by (auto simp: isHexDigit_def)
  then show ?thesis using assms by (simp add: parseInt16_def Let_def split: list.splits)
qed

lemma parseInt16_empty: "parseInt16 [] = None"
  by (simp add: parseInt16_def)

lemma slice_no_number:
  assumes "noNumberAt hex i"
  shows "parseInt16 (take 2 (drop i hex)) = None"
proof (cases "length hex \<le> i")
  case True
  then show ?thesis by (simp add: parseInt16_empty)
next
  case False
  then have d: "drop i hex = hex ! i # drop (Suc i) hex" by (simp add: Cons_nth_drop_Suc)
  have "parseInt16 (hex ! i # take 1 (drop (Suc i) hex)) = None"
    using assms False by (intro parseInt16_no_digit) (simp_all add: noNumberAt_def)
  then show ?thesis by (simp add: d)
qed

text \<open>
  C8, as the claim states it, fails: the claim promises that a malformed
  colour string falls back to a safe default colour. For the string
  \<open>#GGGGGG\<close> the result of \<open>hexToRgba\<close> is the text
  \<open>rgba(NaN, NaN, NaN, 0.5)\<close>, which is no colour.
\<close>

theorem hexToRgba_no_default_counterexample:
  "\<not> isColor (hexToRgba (ascii ''#GGGGGG'') (1 / 2))"
  by (simp add: isColor_def hexToRgba_def slice_def parseInt16_def isWhiteSpace_def isHexDigit_def
      ascii_def)

text \<open>
  C8, amended: \<open>hexToRgba('#D4AF37', 0.5)\<close> yields exactly the channels
  (212, 175, 55) with alpha 0.5; for every string of a mark and six
  hexadecimal digits each channel is the value of its two-digit slice, between
  0 and 255 (characters after the sixth digit are ignored); \<open>hexToRgba\<close>
  returns for every string, never throws and passes the alpha on, but there
  is no default colour: a channel is \<open>NaN\<close> whenever the string ends before
  its slice or the slice starts with a character that is no hexadecimal
  digit, white space or sign. (After white space \<open>parseInt\<close> reads on: the
  slice of U+00A0 and \<open>A\<close> is the number 10.)
\<close>

theorem hexToRgba_channels:
  "hexToRgba (ascii ''#D4AF37'') (1 / 2) = Rgba (Some 212) (Some 175) (Some 55) (1 / 2)
   \<and> (\<forall>c h1 h2 h3 h4 h5 h6 rest alpha.
         isHexDigit h1 \<and> isHexDigit h2 \<and> isHexDigit h3 \<and> isHexDigit h4 \<and> isHexDigit h5
           \<and> isHexDigit h6 \<longrightarrow>
         hexToRgba (c # h1 # h2 # h3 # h4 # h5 # h6 # rest) alpha =
           Rgba (Some (16 * digitValue h1 + digitValue h2))
                (Some (16 * digitValue h3 + digitValue h4))
                (Some (16 * digitValue h5 + digitValue h6)) alpha
         \<and> 0 \<le> 16 * digitValue h1 + digitValue h2 \<and> 16 * digitValue h1 + digitValue h2 \<le> 255
         \<and> 0 \<le> 16 * digitValue h3 + digitValue h4 \<and> 16 * digitValue h3 + digitValue h4 \<le> 255
         \<and> 0 \<le> 16 * digitValue h5 + digitValue h6 \<and> 16 * digitValue h5 + digitValue h6 \<le> 255)
   \<and> (\<forall>hex alpha.
         opacity (hexToRgba hex alpha) = alpha
         \<and> (noNumberAt hex 1 \<longrightarrow> red (hexToRgba hex alpha) = None)
         \<and> (noNumberAt hex 3 \<longrightarrow> green (hexToRgba hex alpha) = None)
         \<and> (noNumberAt hex 5 \<longrightarrow> blue (hexToRgba hex alpha) = None))
   \<and> (\<forall>c rest alpha. red (hexToRgba (c # 160 # of_char CHR ''A'' # rest) alpha) = Some 10)"
proof (intro conjI allI impI)
  show "hexToRgba (ascii ''#D4AF37'') (1 / 2) = Rgba (Some 212) (Some 175) (Some 55) (1 / 2)"
    by (simp add: hexToRgba_def slice_def parseInt16_def isWhiteSpace_def isHexDigit_def
        digitValue_def ascii_def)
next
  fix c h1 h2 h3 h4 h5 h6 :: nat and rest :: jsstring and alpha :: real
  assume h: "isHexDigit h1 \<and> isHexDigit h2 \<and> isHexDigit h3 \<and> isHexDigit h4 \<and> isHexDigit h5
           \<and> isHexDigit h6"
  show "hexToRgba (c # h1 # h2 # h3 # h4 # h5 # h6 # rest) alpha =
           Rgba (Some (16 * digitValue h1 + digitValue h2))
                (Some (16 * digitValue h3 + digitValue h4))
                (Some (16 * digitValue h5 + digitValue h6)) alpha"
    using h by (simp add: hexToRgba_def slice_def parseInt16_two_digits)
  show "0 \<le> 16 * digitValue h1 + digitValue h2"
    using h digitValue_range[of h1] digitValue_range[of h2] by simp
  show "16 * digitValue h1 + digitValue h2 \<le> 255"
    using h digitValue_range[of h1] digitValue_range[of h2] by simp
  show "0 \<le> 16 * digitValue h3 + digitValue h4"
    using h digitValue_range[of h3] digitValue_range[of h4] by simp
  show "16 * digitValue h3 + digitValue h4 \<le> 255"
    using h digitValue_range[of h3] digitValue_range[of h4] by simp
  show "0 \<le> 16 * digitValue h5 + digitValue h6"
    using h digitValue_range[of h5] digitValue_range[of h6] by simp
  show "16 * digitValue h5 + digitValue h6 \<le> 255"
    using h digitValue_range[of h5] digitValue_range[of h6] by simp
next
  fix hex :: jsstring and alpha :: real
  show "opacity (hexToRgba hex alpha) = alpha" by (simp add: hexToRgba_def)
  show "red (hexToRgba hex alpha) = None" if "noNumberAt hex 1"
    using slice_no_number[OF that] by (simp add: hexToRgba_def slice_def)
  show "green (hexToRgba hex alpha) = None" if "noNumberAt hex 3"
    using slice_no_number[OF that] by (simp add: hexToRgba_def slice_def)
  show "blue (hexToRgba hex alpha) = None" if "noNumberAt hex 5"
    using slice_no_number[OF that] by (simp add: hexToRgba_def slice_def)
next
  fix c :: nat and rest :: jsstring and alpha :: real
  show "red (hexToRgba (c # 160 # of_char CHR ''A'' # rest) alpha) = Some 10"
    by (simp add: hexToRgba_def slice_def parseInt16_def isWhiteSpace_def isHexDigit_def
        digitValue_def)
qed

theorem hexToRgba_channels_witness:
  "isHexDigit (of_char CHR ''1'') \<and> isHexDigit (of_char CHR ''A'') \<and> isHexDigit (of_char CHR ''2'')
   \<and> isHexDigit (of_char CHR ''3'') \<and> isHexDigit (of_char CHR ''7'')
   \<and> isHexDigit (of_char CHR ''E'')
   \<and> hexToRgba (ascii ''#1A237E'') (1 / 10) = Rgba (Some 26) (Some 35) (Some 126) (1 / 10)
   \<and> noNumberAt (ascii ''#GG12xy'') 1 \<and> noNumberAt (ascii ''#12xyz'') 3
   \<and> noNumberAt (ascii ''#12xyz'') 5 \<and> noNumberAt (ascii ''red'') 3
   \<and> red (hexToRgba (ascii ''#GG12xy'') 1) = None
   \<and> green (hexToRgba (ascii ''#12xyz'') 1) = None
   \<and> blue (hexToRgba (ascii ''#12xyz'') 1) = None
   \<and> green (hexToRgba (ascii ''red'') 1) = None"
proof -
  have d: "isHexDigit (of_char CHR ''1'')" "isHexDigit (of_char CHR ''A'')"
    "isHexDigit (of_char CHR ''2'')" "isHexDigit (of_char CHR ''3'')"
    "isHexDigit (of_char CHR ''7'')" "isHexDigit (of_char CHR ''E'')"
    by (simp_all add: isHexDigit_def)
  have n: "noNumberAt (ascii ''#GG12xy'') 1" "noNumberAt (ascii ''#12xyz'') 3"
    "noNumberAt (ascii ''#12xyz'') 5" "noNumberAt (ascii ''red'') 3"
    by (simp_all add: noNumberAt_def isHexDigit_def isWhiteSpace_def ascii_def)
  note t = hexToRgba_channels
  have "hexToRgba (of_char CHR ''#'' # of_char CHR ''1'' # of_char CHR ''A'' # of_char CHR ''2''
          # of_char CHR ''3'' # of_char CHR ''7'' # of_char CHR ''E'' # []) (1 / 10)
        = Rgba (Some (16 * digitValue (of_char CHR ''1'') + digitValue (of_char CHR ''A'')))
               (Some (16 * digitValue (of_char CHR ''2'') + digitValue (of_char CHR ''3'')))
               (Some (16 * digitValue (of_char CHR ''7'') + digitValue (of_char CHR ''E'')))
               (1 / 10)"
    using t d by blast
  then have a: "hexToRgba (ascii ''#1A237E'') (1 / 10)
                  = Rgba (Some 26) (Some 35) (Some 126) (1 / 10)"
    by (simp add: digitValue_def ascii_def)
  have b: "red (hexToRgba (ascii ''#GG12xy'') 1) = None"
    "green (hexToRgba (ascii ''#12xyz'') 1) = None" "blue (hexToRgba (ascii ''#12xyz'') 1) = None"
    "green (hexToRgba (ascii ''red'') 1) = None"
    using t n by blast+
  show ?thesis using d n a b by simp
qed

subsection \<open>Numbers that may be NaN\<close>

lemma Num_plus [simp]: "Num a + Num b = Num (a + b)"
  by (simp add: plus_number_def)

lemma Num_minus [simp]: "Num a - Num b = Num (a - b)"
  by (simp add: minus_number_def)

lemma Num_times [simp]: "Num a * Num b = Num (a * b)"
  by (simp add: times_number_def)

lemma Num_less [simp]: "(Num a < Num b) = (a < b)"
  by (simp add: less_number_def)

lemma Num_le [simp]: "(Num a \<le> Num b) = (a \<le> b)"
  by (simp add: less_eq_number_def)

lemma NaN_arith [simp]:
  "NaN + v = NaN" "v + NaN = NaN" "NaN - v = NaN" "v - NaN = NaN" "NaN * v = NaN" "v * NaN = NaN"
  by (simp_all add: plus_number_def minus_number_def times_number_def split: number.splits)

lemma NaN_compare [simp]:
  "\<not> NaN < v" "\<not> v < NaN" "\<not> NaN \<le> v" "\<not> v \<le> NaN"
  by (simp_all add: less_number_def less_eq_number_def split: number.splits)

lemma Num_functions [simp]:
  "nhypot (Num a) (Num b) = Num (hypot a b)" "nsin (Num a) = Num (sin a)"
  "ncos (Num a) = Num (cos a)"
  by (simp_all add: nhypot_def nsin_def ncos_def)

lemma NaN_functions [simp]:
  "nhypot NaN v = NaN" "nhypot v NaN = NaN" "nsin NaN = NaN" "ncos NaN = NaN"
  by (simp_all add: nhypot_def nsin_def ncos_def split: number.splits)

lemma plus_Num_zero [simp]: "v + Num 0 = v" "Num 0 + v = v"
  by (cases v; simp)+

lemma inRange_Num [simp]: "inRange limit (Num x) = (0 \<le> x \<and> x \<le> limit)"
  by (simp add: inRange_def)

lemma inRange_NaN [simp]: "\<not> inRange limit NaN"
  by (simp add: inRange_def)

subsection \<open>The wrap at the edges\<close>

lemma wrapCoord_Num:
  "wrapCoord (Num x) limit = Num (if x < 0 then limit else if limit < x then 0 else x)"
  by (simp add: wrapCoord_def Let_def)

lemma wrapCoord_NaN: "wrapCoord NaN limit = NaN"
  by (simp add: wrapCoord_def Let_def)

lemma wrapCoord_box: "wrapCoord v (real n) = NaN \<or> inRange (real n) (wrapCoord v (real n))"
  by (cases v) (simp_all add: wrapCoord_Num wrapCoord_NaN)

text \<open>
  C1, as the claim states it, fails: the box of the claim is half-open, but a
  coordinate below zero is set to the width itself. On a canvas 800 wide a
  particle at \<open>x = -5\<close> is wrapped to \<open>x = 800\<close>.
\<close>

theorem wrap_half_open_counterexample:
  "p_x (wrap emptyFrame (weaver\<lparr>p_x := Num (- 5)\<rparr>)) = Num 800
   \<and> \<not> (Num 0 \<le> p_x (wrap emptyFrame (weaver\<lparr>p_x := Num (- 5)\<rparr>))
          \<and> p_x (wrap emptyFrame (weaver\<lparr>p_x := Num (- 5)\<rparr>)) < Num (real (width emptyFrame)))"
  by (simp add: wrap_def wrapCoord_def emptyFrame_def weaver_def)

text \<open>
  C1, amended: for every frame and every particle, a coordinate that is a
  number (not \<open>NaN\<close>) lies after the wrap in the closed interval from 0 to
  the width, or from 0 to the height: a coordinate below zero reappears at
  the opposite edge (the width, the height), one beyond the width or the
  height reappears at 0, and any other coordinate is unchanged (no
  reflection, no clamping).
\<close>

theorem wrap_closed_box:
  "(\<forall>x. p_x p = Num x \<longrightarrow>
       inRange (real (width fr)) (p_x (wrap fr p))
       \<and> p_x (wrap fr p) =
           Num (if x < 0 then real (width fr) else if real (width fr) < x then 0 else x))
   \<and> (\<forall>y. p_y p = Num y \<longrightarrow>
       inRange (real (height fr)) (p_y (wrap fr p))
       \<and> p_y (wrap fr p) =
           Num (if y < 0 then real (height fr) else if real (height fr) < y then 0 else y))"
  by (simp add: wrap_def wrapCoord_Num)

theorem wrap_closed_box_witness:
  "p_x (dust\<lparr>p_x := Num (- 5)\<rparr>) = Num (- 5) \<and> p_y (dust\<lparr>p_x := Num (- 5)\<rparr>) = Num 40
   \<and> real (width emptyFrame) = 800 \<and> real (height emptyFrame) = 600
   \<and> inRange 800 (p_x (wrap emptyFrame (dust\<lparr>p_x := Num (- 5)\<rparr>)))
   \<and> p_x (wrap emptyFrame (dust\<lparr>p_x := Num (- 5)\<rparr>)) = Num 800
   \<and> inRange 600 (p_y (wrap emptyFrame (dust\<lparr>p_x := Num (- 5)\<rparr>)))
   \<and> p_y (wrap emptyFrame (dust\<lparr>p_x := Num (- 5)\<rparr>)) = Num 40"
proof -
  have w: "real (width emptyFrame) = 800" "real (height emptyFrame) = 600"
    by (simp_all add: emptyFrame_def)
  have c: "p_x (dust\<lparr>p_x := Num (- 5)\<rparr>) = Num (- 5)" "p_y (dust\<lparr>p_x := Num (- 5)\<rparr>) = Num 40"
    by (simp_all add: dust_def)
  note t = wrap_closed_box[of "dust\<lparr>p_x := Num (- 5)\<rparr>" emptyFrame]
  have x: "inRange (real (width emptyFrame)) (p_x (wrap emptyFrame (dust\<lparr>p_x := Num (- 5)\<rparr>)))
      \<and> p_x (wrap emptyFrame (dust\<lparr>p_x := Num (- 5)\<rparr>)) =
          Num (if (- 5 :: real) < 0 then real (width emptyFrame)
               else if real (width emptyFrame) < - 5 then 0 else - 5)"
    using t[THEN conjunct1, rule_format, OF c(1)] .
  have y: "inRange (real (height emptyFrame)) (p_y (wrap emptyFrame (dust\<lparr>p_x := Num (- 5)\<rparr>)))
      \<and> p_y (wrap emptyFrame (dust\<lparr>p_x := Num (- 5)\<rparr>)) =
          Num (if (40 :: real) < 0 then real (height emptyFrame)
               else if real (height emptyFrame) < 40 then 0 else 40)"
    using t[THEN conjunct2, rule_format, OF c(2)] .
  show ?thesis using w c x y by simp
qed

subsection \<open>Every stage returns\<close>

lemma not_isl_Inr: "\<not> isl v \<Longrightarrow> \<exists>y. v = Inr y"
  by (cases v) auto

lemma index_in_range:
  assumes "0 \<le> r" "r < 1" "xs \<noteq> []"
  shows "\<exists>s. index xs \<lfloor>r * real (length xs)\<rfloor> = Some s \<and> s \<in> set xs"
proof -
  have n: "0 < real (length xs)" using assms(3) by simp
  have lo: "0 \<le> r * real (length xs)" using assms(1) by simp
  have hi: "r * real (length xs) < real (length xs)" using assms(2) n by simp
  have a: "0 \<le> \<lfloor>r * real (length xs)\<rfloor>" using lo by simp
  have b: "\<lfloor>r * real (length xs)\<rfloor> < int (length xs)" using hi by (simp add: floor_less_iff)
  show ?thesis using a b by (simp add: index_def nat_less_iff)
qed

lemma respawn_returns:
  assumes "unitInterval rnd"
  shows "\<exists>p' k'. respawn rnd fr p k = Inr (p', k')"
proof (cases "tips fr = []")
  case True
  then show ?thesis by (simp add: respawn_def Let_def)
next
  case False
  have "0 \<le> rnd k" "rnd k < 1" using assms by (simp_all add: unitInterval_def)
  from index_in_range[OF this False] obtain s where
    "index (tips fr) \<lfloor>rnd k * real (length (tips fr))\<rfloor> = Some s" by blast
  then show ?thesis by (simp add: respawn_def Let_def)
qed

lemma updateParticle_returns:
  assumes "unitInterval rnd"
  shows "\<exists>p' k'. updateParticle rnd fr p k = Inr (p', k')"
proof -
  obtain p1 k1 where r: "respawn rnd fr p k = Inr (p1, k1)"
    using respawn_returns[OF assms] by blast
  obtain f k2 where c: "computeForce rnd fr p1 k1 = (f, k2)"
    by (cases "computeForce rnd fr p1 k1")
  show ?thesis using r c by (simp add: updateParticle_def)
qed

lemma particleLoop_returns:
  assumes "unitInterval rnd"
  shows "\<exists>ps' cmds k'. particleLoop rnd fr i ps k = Inr (ps', cmds, k')"
proof (induction ps arbitrary: i k)
  case Nil
  show ?case by simp
next
  case (Cons p later)
  obtain p' k1 where u: "updateParticle rnd fr p k = Inr (p', k1)"
    using updateParticle_returns[OF assms] by blast
  obtain ps' cmds k2 where l: "particleLoop rnd fr (i + 1) later k1 = Inr (ps', cmds, k2)"
    using Cons.IH by blast
  show ?case using u l by simp
qed

subsection \<open>What a stage changes\<close>

lemma respawn_keeps:
  assumes "respawn rnd fr p k = Inr (p', k')"
  shows "p_size p' = p_size p \<and> p_maxLife p' = p_maxLife p \<and> p_type p' = p_type p
         \<and> p_color p' = p_color p"
  using assms by (auto simp: respawn_def Let_def split: if_splits option.splits)


lemma updateParticle_stages:
  assumes "updateParticle rnd fr p k = Inr (p', k')"
  shows "\<exists>p1 k1 f. respawn rnd fr p k = Inr (p1, k1) \<and> computeForce rnd fr p1 k1 = (f, k')
           \<and> p' = wrap fr (integrate f p1)"
  using assms by (auto simp: updateParticle_def split: sum.splits prod.splits)

lemma move_keeps:
  "p_size (wrap fr (integrate f p)) = p_size p \<and> p_maxLife (wrap fr (integrate f p)) = p_maxLife p
   \<and> p_type (wrap fr (integrate f p)) = p_type p \<and> p_color (wrap fr (integrate f p)) = p_color p
   \<and> p_life (wrap fr (integrate f p)) = p_life p"
  by (simp add: wrap_def integrate_def Let_def)

lemma updateParticle_keeps:
  assumes "updateParticle rnd fr p k = Inr (p', k')"
  shows "p_size p' = p_size p \<and> p_maxLife p' = p_maxLife p \<and> p_type p' = p_type p
         \<and> p_color p' = p_color p"
proof -
  obtain p1 k1 f where r: "respawn rnd fr p k = Inr (p1, k1)" and p': "p' = wrap fr (integrate f p1)"
    using updateParticle_stages[OF assms] by blast
  show ?thesis using respawn_keeps[OF r] move_keeps[of fr f p1] p' by simp
qed


lemma updateParticle_box:
  assumes "updateParticle rnd fr p k = Inr (p', k')"
  shows "(p_x p' = NaN \<or> inRange (real (width fr)) (p_x p'))
         \<and> (p_y p' = NaN \<or> inRange (real (height fr)) (p_y p'))"
proof -
  obtain p1 f where p': "p' = wrap fr (integrate f p1)"
    using updateParticle_stages[OF assms] by blast
  show ?thesis unfolding p' using wrapCoord_box by (simp add: wrap_def)
qed

lemma particleLoop_each:
  assumes "particleLoop rnd fr i ps k = Inr (ps', cmds, k')" "p' \<in> set ps'"
  shows "\<exists>p\<in>set ps. \<exists>k0 k1. updateParticle rnd fr p k0 = Inr (p', k1)"
  using assms
proof (induction ps arbitrary: i k ps' cmds k')
  case Nil
  then show ?case by simp
next
  case (Cons p later)
  from Cons.prems(1) obtain q k1 qs c2 where
    u: "updateParticle rnd fr p k = Inr (q, k1)" and
    l: "particleLoop rnd fr (i + 1) later k1 = Inr (qs, c2, k')" and
    ps': "ps' = q # qs"
    by (auto split: sum.splits prod.splits)
  show ?case
  proof (cases "p' = q")
    case True
    then show ?thesis using u by auto
  next
    case False
    then have "p' \<in> set qs" using Cons.prems(2) ps' by simp
    from Cons.IH[OF l this] show ?thesis by auto
  qed
qed

lemma particleLoop_keeps:
  assumes "particleLoop rnd fr i ps k = Inr (ps', cmds, k')"
  shows "map p_size ps' = map p_size ps \<and> map p_maxLife ps' = map p_maxLife ps
         \<and> map p_type ps' = map p_type ps \<and> map p_color ps' = map p_color ps"
  using assms
proof (induction ps arbitrary: i k ps' cmds k')
  case Nil
  then show ?case by simp
next
  case (Cons p later)
  from Cons.prems(1) obtain q k1 qs c2 where
    u: "updateParticle rnd fr p k = Inr (q, k1)" and
    l: "particleLoop rnd fr (i + 1) later k1 = Inr (qs, c2, k')" and
    ps': "ps' = q # qs"
    by (auto split: sum.splits prod.splits)
  show ?case using updateParticle_keeps[OF u] Cons.IH[OF l] ps' by simp
qed

subsection \<open>The frame as a whole\<close>

lemma geminiTrigger_keeps:
  "particles (fst (geminiTrigger t d st)) = particles st
   \<and> randomCalls (fst (geminiTrigger t d st)) = randomCalls st
   \<and> theme (fst (geminiTrigger t d st)) = theme st
   \<and> lastTime (fst (geminiTrigger t d st)) = lastTime st
   \<and> handPoints (fst (geminiTrigger t d st)) = handPoints st"
  by (simp add: geminiTrigger_def Let_def)

lemma handDetection_keeps:
  "particles (fst (handDetection inp st)) = particles st
   \<and> randomCalls (fst (handDetection inp st)) = randomCalls st
   \<and> theme (fst (handDetection inp st)) = theme st
   \<and> lastTime (fst (handDetection inp st)) = lastTime st"
  using geminiTrigger_keeps by (simp add: handDetection_def split: option.splits)

lemma render_unfold:
  "render rnd inp st =
    (case particleLoop rnd
            (frameOf inp (timestamp inp - lastTime st)
               (fst (handDetection inp (st\<lparr>lastTime := timestamp inp\<rparr>))))
            0 (particles st) (randomCalls st) of
       Inl e \<Rightarrow> Inl e
     | Inr (ps, cmds, k) \<Rightarrow>
         Inr ((fst (handDetection inp (st\<lparr>lastTime := timestamp inp\<rparr>)))
                \<lparr>particles := ps, randomCalls := k\<rparr>,
              snd (handDetection inp (st\<lparr>lastTime := timestamp inp\<rparr>)), cmds))"
proof -
  obtain st2 reqs where h: "handDetection inp (st\<lparr>lastTime := timestamp inp\<rparr>) = (st2, reqs)"
    by (cases "handDetection inp (st\<lparr>lastTime := timestamp inp\<rparr>)")
  have "particles st2 = particles st \<and> randomCalls st2 = randomCalls st"
    using handDetection_keeps[of inp "st\<lparr>lastTime := timestamp inp\<rparr>"] h by simp
  then show ?thesis by (simp add: render_def Let_def h split: sum.splits prod.splits)
qed

lemma frameOf_fields:
  "width (frameOf inp dt st) = canvasWidth inp \<and> height (frameOf inp dt st) = canvasHeight inp
   \<and> deltaTime (frameOf inp dt st) = dt \<and> currentTheme (frameOf inp dt st) = theme st
   \<and> dpr (frameOf inp dt st) \<noteq> 0"
  by (simp add: frameOf_def)

lemma render_loop:
  assumes "render rnd inp st = Inr (st', reqs, cmds)"
  shows "\<exists>fr. particleLoop rnd fr 0 (particles st) (randomCalls st)
               = Inr (particles st', cmds, randomCalls st')
            \<and> width fr = canvasWidth inp \<and> height fr = canvasHeight inp
            \<and> deltaTime fr = timestamp inp - lastTime st
            \<and> theme st' = theme st \<and> lastTime st' = timestamp inp"
  using assms handDetection_keeps[of inp "st\<lparr>lastTime := timestamp inp\<rparr>"]
  by (auto simp: render_unfold frameOf_fields split: sum.splits prod.splits)

lemma render_returns:
  assumes "unitInterval rnd"
  shows "\<exists>st' reqs cmds. render rnd inp st = Inr (st', reqs, cmds)"
proof -
  let ?st2 = "fst (handDetection inp (st\<lparr>lastTime := timestamp inp\<rparr>))"
  let ?fr = "frameOf inp (timestamp inp - lastTime st) ?st2"
  from particleLoop_returns[OF assms]
  obtain ps' cmds k' where "particleLoop rnd ?fr 0 (particles st) (randomCalls st) = Inr (ps', cmds, k')"
    by blast
  then show ?thesis by (simp add: render_unfold)
qed

lemma rndHalf_unit: "unitInterval rndHalf"
  by (simp add: unitInterval_def rndHalf_def)

subsection \<open>Positions after a frame\<close>

text \<open>
  After a frame every coordinate of every particle is \<open>NaN\<close> or lies in the
  closed interval from 0 to the width, or to the height, of the canvas.
\<close>

lemma render_box:
  assumes "render rnd inp st = Inr (st', reqs, cmds)" "p \<in> set (particles st')"
  shows "(p_x p = NaN \<or> inRange (real (canvasWidth inp)) (p_x p))
         \<and> (p_y p = NaN \<or> inRange (real (canvasHeight inp)) (p_y p))"
proof -
  obtain fr where l: "particleLoop rnd fr 0 (particles st) (randomCalls st)
               = Inr (particles st', cmds, randomCalls st')"
    and w: "width fr = canvasWidth inp" and h: "height fr = canvasHeight inp"
    using render_loop[OF assms(1)] by blast
  from particleLoop_each[OF l assms(2)] obtain q k0 k1 where
    "updateParticle rnd fr q k0 = Inr (p, k1)" by blast
  from updateParticle_box[OF this] show ?thesis using w h by simp
qed

text \<open>
  C9 fails in the code: under a CRYSTALLIZE theme with \<open>geometryScale = 0\<close>
  the grid has the size zero, the snap position \<open>Math.round(p.x / 0) * 0\<close> of
  a STRUCTURE particle within reach of a fingertip is \<open>NaN\<close>, and so are its
  force, its velocity and its position; both tests of the wrap are false of
  \<open>NaN\<close>, the frame goes on and draws the particle at \<open>NaN\<close>. The frame
  returns, and the particle is in no box.
\<close>

theorem render_zero_grid:
  "render rndHalf (frameAt 40 (Some oneHand)) zeroGridState =
     Inr (zeroGridState
            \<lparr>lastTime := 40, handPoints := [fingertip],
             particles := [weaver\<lparr>p_life := 78, p_vx := NaN, p_vy := NaN, p_x := NaN, p_y := NaN\<rparr>]\<rparr>,
          [],
          [FillRect (Rgba (Some 212) (Some 175) (Some 55) 1) NaN NaN 2 2])
   \<and> \<not> inRange (real (canvasWidth (frameAt 40 (Some oneHand)))) NaN"
  by (simp add: render_def handDetection_def geminiTrigger_def frameOf_def frameAt_def
      zeroGridState_def zeroGrid_def startState_def oneHand_def fingertip_def weaver_def
      DEFAULT_THEME_def updateParticle_def respawn_def computeForce_def structureForce_def
      integrate_def wrap_def wrapCoord_def snap_def geometryDistance_def interactionDistance_def
      scaleFactor_def forceFactor_def damping_def drawParticle_def baseColor_def
      particleAlpha_def hexToRgba_def slice_def parseInt16_def isWhiteSpace_def isHexDigit_def
      digitValue_def ascii_def hypot_def CRYSTALLIZE_def WEAVE_def Let_def)

subsection \<open>The life of a particle\<close>








subsection \<open>The stored colour\<close>

lemma closestLoop_recolour:
  "closestLoop (p\<lparr>p_color := c\<rparr>) ts acc = closestLoop p ts acc"
proof (induction ts arbitrary: acc)
  case Nil
  show ?case by simp
next
  case (Cons t ts)
  show ?case by (cases acc) (simp add: Cons.IH split: number.splits)
qed

lemma respawn_recolour:
  assumes "respawn rnd fr p k = Inr (p', k')"
  shows "respawn rnd fr (p\<lparr>p_color := c\<rparr>) k = Inr (p'\<lparr>p_color := c\<rparr>, k')"
  using assms by (auto simp: respawn_def Let_def split: if_splits option.splits)

lemma structureForce_recolour:
  "structureForce fr (p\<lparr>p_color := c\<rparr>) dx dy d force = structureForce fr p dx dy d force"
  by (simp add: structureForce_def Let_def)

lemma computeForce_recolour:
  "computeForce rnd fr (p\<lparr>p_color := c\<rparr>) k = computeForce rnd fr p k"
  by (simp add: computeForce_def closestLoop_recolour structureForce_recolour Let_def
      del: closestLoop.simps split: list.splits prod.splits)

lemma move_recolour:
  "wrap fr (integrate f (p\<lparr>p_color := c\<rparr>)) = (wrap fr (integrate f p))\<lparr>p_color := c\<rparr>"
  by (simp add: wrap_def integrate_def Let_def)

lemma updateParticle_recolour:
  assumes "updateParticle rnd fr p k = Inr (p', k')"
  shows "updateParticle rnd fr (p\<lparr>p_color := c\<rparr>) k = Inr (p'\<lparr>p_color := c\<rparr>, k')"
proof -
  obtain p1 k1 f where r: "respawn rnd fr p k = Inr (p1, k1)"
    and cf: "computeForce rnd fr p1 k1 = (f, k')" and p': "p' = wrap fr (integrate f p1)"
    using updateParticle_stages[OF assms] by blast
  show ?thesis
    by (simp add: updateParticle_def respawn_recolour[OF r] computeForce_recolour cf p'
        move_recolour)
qed

lemma connections_recolour:
  "connections fr (p\<lparr>p_color := c\<rparr>) (map (\<lambda>q. q\<lparr>p_color := c\<rparr>) later) = connections fr p later"
  by (induction later) (simp_all add: baseColor_def particleAlpha_def split: number.splits)

lemma drawParticle_recolour:
  "drawParticle fr i (p\<lparr>p_color := c\<rparr>) (map (\<lambda>q. q\<lparr>p_color := c\<rparr>) later)
     = drawParticle fr i p later"
  by (simp add: drawParticle_def baseColor_def particleAlpha_def take_map connections_recolour)

lemma particleLoop_recolour:
  assumes "particleLoop rnd fr i ps k = Inr (ps', cmds, k')"
  shows "particleLoop rnd fr i (map (\<lambda>q. q\<lparr>p_color := c\<rparr>) ps) k
           = Inr (map (\<lambda>q. q\<lparr>p_color := c\<rparr>) ps', cmds, k')"
  using assms
proof (induction ps arbitrary: i k ps' cmds k')
  case Nil
  then show ?case by simp
next
  case (Cons p later)
  from Cons.prems(1) obtain q k1 qs c2 where
    u: "updateParticle rnd fr p k = Inr (q, k1)" and
    l: "particleLoop rnd fr (i + 1) later k1 = Inr (qs, c2, k')" and
    ps': "ps' = q # qs" and cm: "cmds = drawParticle fr i q later @ c2"
    by (auto split: sum.splits prod.splits)
  have ih: "particleLoop rnd fr (Suc i) (map (\<lambda>q. q\<lparr>p_color := c\<rparr>) later) k1
              = Inr (map (\<lambda>q. q\<lparr>p_color := c\<rparr>) qs, c2, k')"
    using Cons.IH[OF l] by simp
  show ?case
    by (simp add: updateParticle_recolour[OF u] ih ps' cm drawParticle_recolour)
qed

lemma render_recolour:
  assumes "render rnd inp st = Inr (st', reqs, cmds)"
  shows "render rnd inp (recolour c st) = Inr (recolour c st', reqs, cmds)"
proof -
  let ?s = "st\<lparr>lastTime := timestamp inp\<rparr>"
  obtain st2 rq where h: "handDetection inp ?s = (st2, rq)" by (cases "handDetection inp ?s")
  have h': "handDetection inp ((recolour c st)\<lparr>lastTime := timestamp inp\<rparr>) = (recolour c st2, rq)"
    using h by (auto simp: handDetection_def geminiTrigger_def recolour_def Let_def
        split: option.splits if_splits)
  have k: "particles st2 = particles st \<and> randomCalls st2 = randomCalls st"
    using handDetection_keeps[of inp ?s] h by simp
  have f: "frameOf inp dt (recolour c st2) = frameOf inp dt st2" for dt
    by (simp add: frameOf_def recolour_def)
  from assms obtain ps k' where
    l: "particleLoop rnd (frameOf inp (timestamp inp - lastTime st) st2) 0 (particles st)
          (randomCalls st) = Inr (ps, cmds, k')"
    and st': "st' = st2\<lparr>particles := ps, randomCalls := k'\<rparr>" and rq: "reqs = rq"
    using h k by (auto simp: render_def Let_def split: sum.splits prod.splits)
  have "render rnd inp (recolour c st)
          = Inr ((recolour c st2)\<lparr>particles := map (\<lambda>q. q\<lparr>p_color := c\<rparr>) ps, randomCalls := k'\<rparr>,
                 rq, cmds)"
    using particleLoop_recolour[OF l, of c] k
    by (simp add: render_def Let_def h' f) (simp add: recolour_def)
  then show ?thesis by (simp add: st' rq recolour_def)
qed

lemma hexToRgba_sameChannels: "sameChannels (hexToRgba hex a) (hexToRgba hex b)"
  by (simp add: sameChannels_def hexToRgba_def)

lemma connections_step:
  "connections fr p (p2 # rest) = connections fr p rest
   \<or> (\<exists>d. connections fr p (p2 # rest) =
         StrokeLine
           (hexToRgba (baseColor fr p) (particleAlpha p * (1 - d / geometryDistance fr) * 0.5))
           (0.5 * dpr fr) (p_x p) (p_y p) (p_x p2) (p_y p2)
         # connections fr p rest)"
proof (cases "nhypot (p_x p2 - p_x p) (p_y p2 - p_y p)")
  case NaN
  then have "connections fr p (p2 # rest) = connections fr p rest" by simp
  then show ?thesis by (rule disjI1)
next
  case (Num d)
  show ?thesis
  proof (cases "p_type p2 = STRUCTURE \<and> d < geometryDistance fr")
    case True
    then have "connections fr p (p2 # rest) =
         StrokeLine
           (hexToRgba (baseColor fr p) (particleAlpha p * (1 - d / geometryDistance fr) * 0.5))
           (0.5 * dpr fr) (p_x p) (p_y p) (p_x p2) (p_y p2)
         # connections fr p rest"
      using Num by simp
    then show ?thesis by blast
  next
    case False
    then have "connections fr p (p2 # rest) = connections fr p rest" using Num by auto
    then show ?thesis by (rule disjI1)
  qed
qed

lemma connections_baseColor:
  "cmd \<in> set (connections fr p later) \<Longrightarrow>
     sameChannels (styleOf cmd) (hexToRgba (baseColor fr p) 1)"
proof (induction later)
  case Nil
  then show ?case by simp
next
  case (Cons p2 rest)
  from connections_step[of fr p p2 rest] show ?case
  proof
    assume "connections fr p (p2 # rest) = connections fr p rest"
    then show ?thesis using Cons by (simp del: connections.simps)
  next
    assume "\<exists>d. connections fr p (p2 # rest) =
         StrokeLine
           (hexToRgba (baseColor fr p) (particleAlpha p * (1 - d / geometryDistance fr) * 0.5))
           (0.5 * dpr fr) (p_x p) (p_y p) (p_x p2) (p_y p2)
         # connections fr p rest"
    then obtain d where "connections fr p (p2 # rest) =
         StrokeLine
           (hexToRgba (baseColor fr p) (particleAlpha p * (1 - d / geometryDistance fr) * 0.5))
           (0.5 * dpr fr) (p_x p) (p_y p) (p_x p2) (p_y p2)
         # connections fr p rest" by blast
    then show ?thesis using Cons by (auto simp: hexToRgba_sameChannels simp del: connections.simps)
  qed
qed

lemma drawParticle_baseColor:
  assumes "cmd \<in> set (drawParticle fr i p later)"
  shows "sameChannels (styleOf cmd) (hexToRgba (baseColor fr p) 1)"
proof (cases "p_type p = STRUCTURE")
  case True
  then have "cmd = FillRect (hexToRgba (baseColor fr p) (particleAlpha p)) (p_x p) (p_y p)
                     (p_size p) (p_size p)
             \<or> cmd \<in> set (connections fr p (take 14 later))"
    using assms by (auto simp: drawParticle_def split: if_splits)
  then show ?thesis using connections_baseColor by (auto simp: hexToRgba_sameChannels)
next
  case False
  then show ?thesis using assms by (auto simp: drawParticle_def hexToRgba_sameChannels)
qed

lemma drawParticle_styled:
  assumes "cmd \<in> set (drawParticle fr i p later)"
  shows "themeStyled (currentTheme fr) cmd"
  using drawParticle_baseColor[OF assms]
  by (cases "p_type p = STRUCTURE") (simp_all add: themeStyled_def baseColor_def)

lemma particleLoop_styled:
  assumes "particleLoop rnd fr i ps k = Inr (ps', cmds, k')" "cmd \<in> set cmds"
  shows "themeStyled (currentTheme fr) cmd"
  using assms
proof (induction ps arbitrary: i k ps' cmds k')
  case Nil
  then show ?case by simp
next
  case (Cons p later)
  from Cons.prems(1) obtain q k1 qs c2 where
    l: "particleLoop rnd fr (i + 1) later k1 = Inr (qs, c2, k')" and
    cm: "cmds = drawParticle fr i q later @ c2"
    by (auto split: sum.splits prod.splits)
  show ?case
  proof (cases "cmd \<in> set (drawParticle fr i q later)")
    case True
    then show ?thesis by (rule drawParticle_styled)
  next
    case False
    then have "cmd \<in> set c2" using Cons.prems(2) cm by simp
    then show ?thesis using Cons.IH[OF l] by blast
  qed
qed

lemma render_styled:
  assumes "render rnd inp st = Inr (st', reqs, cmds)"
  shows "\<forall>cmd\<in>set cmds. themeStyled (theme st) cmd"
proof
  fix cmd assume c: "cmd \<in> set cmds"
  let ?st2 = "fst (handDetection inp (st\<lparr>lastTime := timestamp inp\<rparr>))"
  let ?fr = "frameOf inp (timestamp inp - lastTime st) ?st2"
  have th: "currentTheme ?fr = theme st"
    using handDetection_keeps[of inp "st\<lparr>lastTime := timestamp inp\<rparr>"] frameOf_fields by simp
  from assms obtain ps k where "particleLoop rnd ?fr 0 (particles st) (randomCalls st) = Inr (ps, cmds, k)"
    by (auto simp: render_unfold split: sum.splits prod.splits)
  from particleLoop_styled[OF this c] show "themeStyled (theme st) cmd" using th by simp
qed

text \<open>
  C10: one frame leaves the fields size, maxLife, type and color of every
  particle as they were (only x, y, vx, vy and life are written, also on a
  respawn), and the stored color is never read: with any other colour stored
  in the particles the frame issues the same requests, draws the same and
  leaves the same particles, up to that colour. What is drawn for a particle
  has the channels of \<open>baseColor\<close>, the primary or the secondary colour of the
  current theme according to the type of the particle.
\<close>

theorem render_mutates:
  assumes "unitInterval rnd"
  shows "(\<exists>st' reqs cmds.
           render rnd inp st = Inr (st', reqs, cmds)
           \<and> map p_size (particles st') = map p_size (particles st)
           \<and> map p_maxLife (particles st') = map p_maxLife (particles st)
           \<and> map p_type (particles st') = map p_type (particles st)
           \<and> map p_color (particles st') = map p_color (particles st)
           \<and> render rnd inp (recolour c st) = Inr (recolour c st', reqs, cmds)
           \<and> (\<forall>cmd\<in>set cmds. themeStyled (theme st) cmd))
         \<and> (\<forall>cmd\<in>set (drawParticle fr i p later).
               sameChannels (styleOf cmd)
                 (hexToRgba (if p_type p = STRUCTURE then primaryColor (currentTheme fr)
                             else secondaryColor (currentTheme fr)) 1))"
proof
  obtain st' reqs cmds where r: "render rnd inp st = Inr (st', reqs, cmds)"
    using render_returns[OF assms] by blast
  obtain fr where l: "particleLoop rnd fr 0 (particles st) (randomCalls st)
               = Inr (particles st', cmds, randomCalls st')"
    using render_loop[OF r] by blast
  show "\<exists>st' reqs cmds.
           render rnd inp st = Inr (st', reqs, cmds)
           \<and> map p_size (particles st') = map p_size (particles st)
           \<and> map p_maxLife (particles st') = map p_maxLife (particles st)
           \<and> map p_type (particles st') = map p_type (particles st)
           \<and> map p_color (particles st') = map p_color (particles st)
           \<and> render rnd inp (recolour c st) = Inr (recolour c st', reqs, cmds)
           \<and> (\<forall>cmd\<in>set cmds. themeStyled (theme st) cmd)"
    using r particleLoop_keeps[OF l] render_recolour[OF r] render_styled[OF r] by blast
next
  show "\<forall>cmd\<in>set (drawParticle fr i p later).
               sameChannels (styleOf cmd)
                 (hexToRgba (if p_type p = STRUCTURE then primaryColor (currentTheme fr)
                             else secondaryColor (currentTheme fr)) 1)"
    using drawParticle_baseColor[of _ fr i p later] by (simp add: baseColor_def)
qed

theorem render_mutates_witness:
  "unitInterval rndHalf
   \<and> (\<exists>st' reqs cmds.
         render rndHalf (frameAt 40 (Some oneHand)) startState = Inr (st', reqs, cmds)
         \<and> map p_size (particles st') = [2, 1]
         \<and> map p_maxLife (particles st') = [120, 250]
         \<and> map p_type (particles st') = [STRUCTURE, STARDUST]
         \<and> map p_color (particles st') = [ascii ''#D4AF37'', ascii ''#1A237E'']
         \<and> render rndHalf (frameAt 40 (Some oneHand)) (recolour (ascii ''#000000'') startState)
             = Inr (recolour (ascii ''#000000'') st', reqs, cmds)
         \<and> list_all (themeStyled DEFAULT_THEME) cmds)
   \<and> list_all (\<lambda>cmd. sameChannels (styleOf cmd) (hexToRgba (ascii ''#1A237E'') 1))
        (drawParticle handFrame 1 dust [weaver])"
proof -
  have p: "map p_size (particles startState) = [2, 1]"
    "map p_maxLife (particles startState) = [120, 250]"
    "map p_type (particles startState) = [STRUCTURE, STARDUST]"
    "map p_color (particles startState) = [ascii ''#D4AF37'', ascii ''#1A237E'']"
    "theme startState = DEFAULT_THEME"
    by (simp_all add: startState_def weaver_def dust_def)
  note t = render_mutates[OF rndHalf_unit,
      of "frameAt 40 (Some oneHand)" startState "ascii ''#000000''" handFrame 1 dust "[weaver]"]
  have a: "\<exists>st' reqs cmds.
         render rndHalf (frameAt 40 (Some oneHand)) startState = Inr (st', reqs, cmds)
         \<and> map p_size (particles st') = [2, 1]
         \<and> map p_maxLife (particles st') = [120, 250]
         \<and> map p_type (particles st') = [STRUCTURE, STARDUST]
         \<and> map p_color (particles st') = [ascii ''#D4AF37'', ascii ''#1A237E'']
         \<and> render rndHalf (frameAt 40 (Some oneHand)) (recolour (ascii ''#000000'') startState)
             = Inr (recolour (ascii ''#000000'') st', reqs, cmds)
         \<and> list_all (themeStyled DEFAULT_THEME) cmds"
    using t[THEN conjunct1] unfolding p list_all_iff .
  have b: "list_all (\<lambda>cmd. sameChannels (styleOf cmd) (hexToRgba (ascii ''#1A237E'') 1))
        (drawParticle handFrame 1 dust [weaver])"
    using t[THEN conjunct2] unfolding list_all_iff
    by (simp add: dust_def handFrame_def emptyFrame_def DEFAULT_THEME_def)
  show ?thesis using rndHalf_unit a b by blast
qed

subsection \<open>Respawn\<close>

text \<open>
  C3, as the claim states it, fails: the claim has the velocity reseeded in
  both cases of a respawn. Without targets the particle only gets a new
  position and a full life, and two random calls are made: for two different
  random sources the velocity after the respawn is the old one, \<open>vx = 7\<close>.
\<close>

theorem respawn_velocity_counterexample:
  "respawn rndHalf emptyFrame weaver 0
     = Inr (weaver\<lparr>p_x := Num 400, p_y := Num 300, p_life := 120\<rparr>, 2)
   \<and> respawn rndQuarter emptyFrame weaver 0
       = Inr (weaver\<lparr>p_x := Num 200, p_y := Num 150, p_life := 120\<rparr>, 2)
   \<and> p_vx (weaver\<lparr>p_x := Num 200, p_y := Num 150, p_life := 120\<rparr>) = Num 7
   \<and> p_vx (weaver\<lparr>p_x := Num 400, p_y := Num 300, p_life := 120\<rparr>) = Num 7"
  by (simp add: respawn_def emptyFrame_def weaver_def rndHalf_def rndQuarter_def)

lemma hypot_le_sum: "hypot a b \<le> \<bar>a\<bar> + \<bar>b\<bar>"
  using sqrt_sum_squares_le_sum_abs[of a b] by (simp add: hypot_def power2_eq_square)

lemma jitter_bound:
  fixes r s :: real
  assumes "0 \<le> r" "r < 1"
  shows "\<bar>(r - 0.5) * 50 * s\<bar> \<le> 25 * \<bar>s\<bar>"
proof -
  have "(r - 0.5) * 50 = 50 * r - 25" by simp
  then have a: "\<bar>(r - 0.5) * 50\<bar> \<le> 25" using assms by (simp only: abs_le_iff) simp
  have "\<bar>(r - 0.5) * 50\<bar> * \<bar>s\<bar> \<le> 25 * \<bar>s\<bar>"
    using a by (rule mult_right_mono) simp
  then show ?thesis by (simp only: abs_mult)
qed

text \<open>
  C3, amended: in every step the life of a particle is decremented by
  \<open>deltaTime * 0.05\<close>; when the result is at most 0 the particle is respawned:
  its life is \<open>maxLife\<close>; when targets exist it is moved to a randomly chosen
  target plus a jitter of at most \<open>25 * scale\<close> along each axis (so within
  \<open>50 * scale\<close> of the target) and its velocity is reseeded; when no target
  exists it is moved to a random point of the canvas and its velocity is
  left as it was.
\<close>

theorem respawn_spec:
  assumes "unitInterval rnd"
  shows "\<exists>p' k'. respawn rnd fr p k = Inr (p', k')
     \<and> (if 0 < p_life p - deltaTime fr * 0.05
         then p' = p\<lparr>p_life := p_life p - deltaTime fr * 0.05\<rparr> \<and> k' = k
         else p_life p' = p_maxLife p
           \<and> (if tips fr \<noteq> []
               then (\<exists>source\<in>set (tips fr). \<exists>x y.
                       index (tips fr) \<lfloor>rnd k * real (length (tips fr))\<rfloor> = Some source
                       \<and> p_x p' = Num x \<and> p_y p' = Num y
                       \<and> x = pt_x source + (rnd (k + 1) - 0.5) * 50 * scaleFactor fr
                       \<and> y = pt_y source + (rnd (k + 2) - 0.5) * 50 * scaleFactor fr
                       \<and> \<bar>x - pt_x source\<bar> \<le> 25 * \<bar>scaleFactor fr\<bar>
                       \<and> \<bar>y - pt_y source\<bar> \<le> 25 * \<bar>scaleFactor fr\<bar>
                       \<and> hypot (x - pt_x source) (y - pt_y source) \<le> 50 * \<bar>scaleFactor fr\<bar>)
                 \<and> p_vx p' = Num ((rnd (k + 3) - 0.5) * (if p_type p = STRUCTURE then 2 else 0.5)
                                    * scaleFactor fr)
                 \<and> p_vy p' = Num ((rnd (k + 4) - 0.5) * (if p_type p = STRUCTURE then 2 else 0.5)
                                    * scaleFactor fr)
                 \<and> k' = k + 5
               else p_x p' = Num (rnd k * real (width fr))
                 \<and> p_y p' = Num (rnd (k + 1) * real (height fr))
                 \<and> inRange (real (width fr)) (p_x p') \<and> inRange (real (height fr)) (p_y p')
                 \<and> p_vx p' = p_vx p \<and> p_vy p' = p_vy p \<and> k' = k + 2))"
proof -
  have u: "0 \<le> rnd j \<and> rnd j < 1" for j using assms by (simp add: unitInterval_def)
  show ?thesis
  proof (cases "0 < p_life p - deltaTime fr * 0.05")
    case True
    then show ?thesis by (simp add: respawn_def Let_def)
  next
    case dead: False
    show ?thesis
    proof (cases "tips fr = []")
      case True
      have "rnd k * real (width fr) \<le> 1 * real (width fr)"
        using u[of k] by (intro mult_right_mono) simp_all
      moreover have "rnd (k + 1) * real (height fr) \<le> 1 * real (height fr)"
        using u[of "k + 1"] by (intro mult_right_mono) simp_all
      ultimately show ?thesis using dead True u[of k] u[of "k + 1"]
        by (simp add: respawn_def Let_def)
    next
      case False
      from index_in_range[OF _ _ False, of "rnd k"] u[of k] obtain s where
        s: "index (tips fr) \<lfloor>rnd k * real (length (tips fr))\<rfloor> = Some s" "s \<in> set (tips fr)"
        by blast
      let ?jx = "(rnd (k + 1) - 0.5) * 50 * scaleFactor fr"
      let ?jy = "(rnd (k + 2) - 0.5) * 50 * scaleFactor fr"
      have bx: "\<bar>?jx\<bar> \<le> 25 * \<bar>scaleFactor fr\<bar>" using u[of "k + 1"] jitter_bound by blast
      have by': "\<bar>?jy\<bar> \<le> 25 * \<bar>scaleFactor fr\<bar>" using u[of "k + 2"] jitter_bound by blast
      have hy: "hypot ?jx ?jy \<le> 50 * \<bar>scaleFactor fr\<bar>"
        using hypot_le_sum[of ?jx ?jy] bx by' by linarith
      define p' where "p' = p\<lparr>p_life := p_maxLife p, p_x := Num (pt_x s + ?jx),
         p_y := Num (pt_y s + ?jy),
         p_vx := Num ((rnd (k + 3) - 0.5) * (if p_type p = STRUCTURE then 2 else 0.5)
                   * scaleFactor fr),
         p_vy := Num ((rnd (k + 4) - 0.5) * (if p_type p = STRUCTURE then 2 else 0.5)
                   * scaleFactor fr)\<rparr>"
      have r: "respawn rnd fr p k = Inr (p', k + 5)"
        using dead False s(1) by (simp add: respawn_def Let_def p'_def)
      have ex: "\<bar>(pt_x s + ?jx) - pt_x s\<bar> \<le> 25 * \<bar>scaleFactor fr\<bar>"
        using bx by (simp only: add_diff_cancel_left')
      have ey: "\<bar>(pt_y s + ?jy) - pt_y s\<bar> \<le> 25 * \<bar>scaleFactor fr\<bar>"
        using by' by (simp only: add_diff_cancel_left')
      have eh: "hypot ((pt_x s + ?jx) - pt_x s) ((pt_y s + ?jy) - pt_y s) \<le> 50 * \<bar>scaleFactor fr\<bar>"
        using hy by (simp only: add_diff_cancel_left')
      have "\<exists>x y. index (tips fr) \<lfloor>rnd k * real (length (tips fr))\<rfloor> = Some s
               \<and> p_x p' = Num x \<and> p_y p' = Num y
               \<and> x = pt_x s + ?jx \<and> y = pt_y s + ?jy
               \<and> \<bar>x - pt_x s\<bar> \<le> 25 * \<bar>scaleFactor fr\<bar>
               \<and> \<bar>y - pt_y s\<bar> \<le> 25 * \<bar>scaleFactor fr\<bar>
               \<and> hypot (x - pt_x s) (y - pt_y s) \<le> 50 * \<bar>scaleFactor fr\<bar>"
        using s(1) ex ey eh
        by (intro exI[of _ "pt_x s + ?jx"] exI[of _ "pt_y s + ?jy"]) (simp add: p'_def)
      then have "\<exists>source\<in>set (tips fr). \<exists>x y.
               index (tips fr) \<lfloor>rnd k * real (length (tips fr))\<rfloor> = Some source
               \<and> p_x p' = Num x \<and> p_y p' = Num y
               \<and> x = pt_x source + ?jx \<and> y = pt_y source + ?jy
               \<and> \<bar>x - pt_x source\<bar> \<le> 25 * \<bar>scaleFactor fr\<bar>
               \<and> \<bar>y - pt_y source\<bar> \<le> 25 * \<bar>scaleFactor fr\<bar>
               \<and> hypot (x - pt_x source) (y - pt_y source) \<le> 50 * \<bar>scaleFactor fr\<bar>"
        using s(2) by (rule_tac x = s in bexI)
      moreover have "p_life p' = p_maxLife p" by (simp add: p'_def)
      moreover have "p_vx p' = Num ((rnd (k + 3) - 0.5) * (if p_type p = STRUCTURE then 2 else 0.5)
                               * scaleFactor fr)" by (simp add: p'_def)
      moreover have "p_vy p' = Num ((rnd (k + 4) - 0.5) * (if p_type p = STRUCTURE then 2 else 0.5)
                               * scaleFactor fr)" by (simp add: p'_def)
      ultimately show ?thesis using r dead False by (intro exI[of _ p'] exI[of _ "k + 5"]) simp
    qed
  qed
qed

theorem respawn_spec_witness:
  "unitInterval rndQuarter
   \<and> (\<exists>p' k'. respawn rndQuarter handFrame weaver 0 = Inr (p', k')
         \<and> p_life p' = 120 \<and> p_x p' = Num (1 / 2) \<and> p_y p' = Num (23 / 2)
         \<and> p_vx p' = Num (- 1 / 2) \<and> p_vy p' = Num (- 1 / 2) \<and> k' = 5)
   \<and> (\<exists>p' k'. respawn rndQuarter emptyFrame weaver 0 = Inr (p', k')
         \<and> p_life p' = 120 \<and> p_x p' = Num 200 \<and> p_y p' = Num 150
         \<and> p_vx p' = Num 7 \<and> p_vy p' = Num (- 3) \<and> k' = 2)
   \<and> (\<exists>p' k'. respawn rndQuarter emptyFrame dust 0 = Inr (p', k')
         \<and> p' = dust\<lparr>p_life := 88\<rparr> \<and> k' = 0)"
proof -
  have u: "unitInterval rndQuarter" by (simp add: unitInterval_def rndQuarter_def)
  have a: "\<exists>p' k'. respawn rndQuarter handFrame weaver 0 = Inr (p', k')
         \<and> p_life p' = 120 \<and> p_x p' = Num (1 / 2) \<and> p_y p' = Num (23 / 2)
         \<and> p_vx p' = Num (- 1 / 2) \<and> p_vy p' = Num (- 1 / 2) \<and> k' = 5"
    using respawn_spec[OF u, of handFrame weaver 0]
    by (auto simp: handFrame_def emptyFrame_def weaver_def fingertip_def rndQuarter_def
        scaleFactor_def index_def)
  have b: "\<exists>p' k'. respawn rndQuarter emptyFrame weaver 0 = Inr (p', k')
         \<and> p_life p' = 120 \<and> p_x p' = Num 200 \<and> p_y p' = Num 150
         \<and> p_vx p' = Num 7 \<and> p_vy p' = Num (- 3) \<and> k' = 2"
    using respawn_spec[OF u, of emptyFrame weaver 0]
    by (auto simp: emptyFrame_def weaver_def rndQuarter_def)
  have c: "\<exists>p' k'. respawn rndQuarter emptyFrame dust 0 = Inr (p', k')
         \<and> p' = dust\<lparr>p_life := 88\<rparr> \<and> k' = 0"
    using respawn_spec[OF u, of emptyFrame dust 0]
    by (auto simp: emptyFrame_def dust_def)
  show ?thesis using u a b c by blast
qed

subsection \<open>The force inside and outside the interaction distance\<close>







lemma computeForce_scan:
  assumes "tips fr \<noteq> []"
  shows "computeForce rnd fr p k =
    (let closestDist = scannedDistance p (tips fr);
         target = scannedTarget p (tips fr);
         dx = Num (pt_x target) - p_x p;
         dy = Num (pt_y target) - p_y p
     in if closestDist < interactionDistance fr then
          (let force = forceFactor closestDist (interactionDistance fr) in
           if p_type p = STRUCTURE then
             (structureForce fr p dx dy closestDist force, k)
           else
             (let fx = Num 0
                    + Num ((rnd k - 0.5) * entropy (currentTheme fr) * scaleFactor fr);
                  fy = Num 0
                    + Num ((rnd (k + 1) - 0.5) * entropy (currentTheme fr) * scaleFactor fr)
              in if closestDist < 300 * scaleFactor fr
                 then ((fx + dx * Num 0.002 * Num force, fy + dy * Num 0.002 * Num force),
                       k + 2)
                 else ((fx, fy), k + 2)))
        else ((Num 0, Num 0), k))"
proof -
  obtain t0 ts where t: "tips fr = t0 # ts" using assms by (cases "tips fr") auto
  obtain c tg where ct: "closestLoop p (t0 # ts) (99999, t0) = (c, tg)"
    by (cases "closestLoop p (t0 # ts) (99999, t0)")
  have s: "scannedDistance p (tips fr) = c" "scannedTarget p (tips fr) = tg"
    using t ct by (simp_all add: scannedDistance_def scannedTarget_def del: closestLoop.simps)
  show ?thesis
    unfolding s by (simp add: computeForce_def t ct Let_def del: closestLoop.simps)
qed




subsection \<open>The fallback mode\<close>

lemma RESONANCE_other:
  "RESONANCE \<noteq> WEAVE \<and> RESONANCE \<noteq> CRYSTALLIZE \<and> RESONANCE \<noteq> FRAGMENT \<and> RESONANCE \<noteq> VOID"
  by (simp add: RESONANCE_def WEAVE_def CRYSTALLIZE_def FRAGMENT_def VOID_def)

lemma structureForce_fallback:
  assumes "m \<noteq> WEAVE" "m \<noteq> CRYSTALLIZE" "m \<noteq> FRAGMENT" "m \<noteq> VOID"
  shows "structureForce (withMode m fr) p dx dy d force =
           (Num 0 + nsin (Num (time fr * 0.01) + p_y p * Num 0.1) * Num 0.5 * Num (scaleFactor fr),
            Num 0 + ncos (Num (time fr * 0.01) + p_x p * Num 0.1) * Num 0.5 * Num (scaleFactor fr))"
  using assms by (simp add: structureForce_def withMode_def scaleFactor_def Let_def)

lemma withMode_fields:
  "tips (withMode m fr) = tips fr \<and> time (withMode m fr) = time fr
   \<and> deltaTime (withMode m fr) = deltaTime fr \<and> width (withMode m fr) = width fr
   \<and> height (withMode m fr) = height fr \<and> dpr (withMode m fr) = dpr fr
   \<and> scaleFactor (withMode m fr) = scaleFactor fr
   \<and> interactionDistance (withMode m fr) = interactionDistance fr
   \<and> entropy (currentTheme (withMode m fr)) = entropy (currentTheme fr)"
  by (simp add: withMode_def scaleFactor_def interactionDistance_def)

lemma respawn_withMode: "respawn rnd (withMode m fr) p k = respawn rnd fr p k"
  by (simp add: respawn_def withMode_fields Let_def split: option.splits)

lemma wrap_withMode: "wrap (withMode m fr) p = wrap fr p"
  by (simp add: wrap_def withMode_fields)

lemma computeForce_fallback:
  assumes "m \<noteq> WEAVE" "m \<noteq> CRYSTALLIZE" "m \<noteq> FRAGMENT" "m \<noteq> VOID"
  shows "computeForce rnd (withMode m fr) p k = computeForce rnd (withMode RESONANCE fr) p k"
  using RESONANCE_other
  by (simp add: computeForce_def withMode_fields structureForce_fallback[OF assms]
      structureForce_fallback Let_def del: closestLoop.simps split: list.splits prod.splits)

text \<open>
  C5: for every mode that is none of WEAVE, CRYSTALLIZE, FRAGMENT and VOID,
  recognised or not, one step of a particle is the step under RESONANCE, so
  the same for all such values; the force of a STRUCTURE particle is the
  oscillation \<open>(sin (time * 0.01 + y * 0.1), cos (time * 0.01 + x * 0.1))\<close>
  times \<open>0.5 * scaleFactor\<close>: driven by the time, with the particle's own
  coordinates as phase, and with no term of the target's position. (As for
  every mode, it acts inside the interaction distance.)
\<close>

theorem fallback_mode:
  assumes "m \<noteq> WEAVE" "m \<noteq> CRYSTALLIZE" "m \<noteq> FRAGMENT" "m \<noteq> VOID"
  shows "updateParticle rnd (withMode m fr) p k = updateParticle rnd (withMode RESONANCE fr) p k
    \<and> structureForce (withMode m fr) p dx dy d force =
         (Num 0 + nsin (Num (time fr * 0.01) + p_y p * Num 0.1) * Num 0.5 * Num (scaleFactor fr),
          Num 0 + ncos (Num (time fr * 0.01) + p_x p * Num 0.1) * Num 0.5 * Num (scaleFactor fr))
    \<and> (p_type p = STRUCTURE \<and> tips fr \<noteq> []
          \<and> scannedDistance p (tips fr) < interactionDistance fr \<longrightarrow>
        computeForce rnd (withMode m fr) p k =
          ((Num 0 + nsin (Num (time fr * 0.01) + p_y p * Num 0.1) * Num 0.5 * Num (scaleFactor fr),
            Num 0 + ncos (Num (time fr * 0.01) + p_x p * Num 0.1) * Num 0.5 * Num (scaleFactor fr)),
           k))
    \<and> (\<forall>x y. p_x p = Num x \<and> p_y p = Num y \<longrightarrow>
          structureForce (withMode m fr) p dx dy d force =
            (Num (0 + sin (time fr * 0.01 + y * 0.1) * 0.5 * scaleFactor fr),
             Num (0 + cos (time fr * 0.01 + x * 0.1) * 0.5 * scaleFactor fr)))"
proof (intro conjI impI allI)
  show "updateParticle rnd (withMode m fr) p k = updateParticle rnd (withMode RESONANCE fr) p k"
    by (simp add: updateParticle_def respawn_withMode wrap_withMode computeForce_fallback[OF assms]
        split: sum.splits prod.splits)
next
  show "structureForce (withMode m fr) p dx dy d force =
         (Num 0 + nsin (Num (time fr * 0.01) + p_y p * Num 0.1) * Num 0.5 * Num (scaleFactor fr),
          Num 0 + ncos (Num (time fr * 0.01) + p_x p * Num 0.1) * Num 0.5 * Num (scaleFactor fr))"
    by (rule structureForce_fallback[OF assms])
next
  assume a: "p_type p = STRUCTURE \<and> tips fr \<noteq> []
          \<and> scannedDistance p (tips fr) < interactionDistance fr"
  then have t: "tips (withMode m fr) \<noteq> []" by (simp add: withMode_fields)
  show "computeForce rnd (withMode m fr) p k =
          ((Num 0 + nsin (Num (time fr * 0.01) + p_y p * Num 0.1) * Num 0.5 * Num (scaleFactor fr),
            Num 0 + ncos (Num (time fr * 0.01) + p_x p * Num 0.1) * Num 0.5 * Num (scaleFactor fr)),
           k)"
    unfolding computeForce_scan[OF t] using a
    by (simp add: withMode_fields structureForce_fallback[OF assms] Let_def)
next
  fix x y
  assume "p_x p = Num x \<and> p_y p = Num y"
  then show "structureForce (withMode m fr) p dx dy d force =
            (Num (0 + sin (time fr * 0.01 + y * 0.1) * 0.5 * scaleFactor fr),
             Num (0 + cos (time fr * 0.01 + x * 0.1) * 0.5 * scaleFactor fr))"
    by (simp add: structureForce_fallback[OF assms])
qed

theorem fallback_mode_witness:
  "''SPIRAL'' \<noteq> WEAVE \<and> ''SPIRAL'' \<noteq> CRYSTALLIZE \<and> ''SPIRAL'' \<noteq> FRAGMENT \<and> ''SPIRAL'' \<noteq> VOID
   \<and> updateParticle rndHalf (withMode ''SPIRAL'' handFrame) weaver 0
       = updateParticle rndHalf (withMode RESONANCE handFrame) weaver 0
   \<and> p_type weaver = STRUCTURE \<and> tips handFrame \<noteq> []
   \<and> scannedDistance weaver (tips handFrame) < interactionDistance handFrame
   \<and> p_x weaver = Num 10 \<and> p_y weaver = Num 20
   \<and> computeForce rndHalf (withMode ''SPIRAL'' handFrame) weaver 0 =
        ((Num (sin 2 / 2), Num (cos 1 / 2)), 0)
   \<and> structureForce (withMode ''SPIRAL'' handFrame) weaver (Num 3) (Num 4) 5 (59 / 60) =
        (Num (sin 2 / 2), Num (cos 1 / 2))"
proof -
  have m: "''SPIRAL'' \<noteq> WEAVE" "''SPIRAL'' \<noteq> CRYSTALLIZE" "''SPIRAL'' \<noteq> FRAGMENT"
    "''SPIRAL'' \<noteq> VOID"
    by (simp_all add: WEAVE_def CRYSTALLIZE_def FRAGMENT_def VOID_def)
  have s: "p_type weaver = STRUCTURE" by (simp add: weaver_def)
  have t: "tips handFrame \<noteq> []" by (simp add: handFrame_def)
  have c: "p_x weaver = Num 10" "p_y weaver = Num 20" by (simp_all add: weaver_def)
  have d: "scannedDistance weaver (tips handFrame) < interactionDistance handFrame"
    by (simp add: scannedDistance_def interactionDistance_def scaleFactor_def handFrame_def
        emptyFrame_def fingertip_def weaver_def hypot_def)
  have v: "time handFrame = 0" "scaleFactor handFrame = 1"
    by (simp_all add: handFrame_def emptyFrame_def scaleFactor_def)
  note f = fallback_mode[OF m, of rndHalf handFrame weaver 0 "Num 3" "Num 4" 5 "59 / 60"]
  have u: "updateParticle rndHalf (withMode ''SPIRAL'' handFrame) weaver 0
       = updateParticle rndHalf (withMode RESONANCE handFrame) weaver 0"
    using f by blast
  have "computeForce rndHalf (withMode ''SPIRAL'' handFrame) weaver 0 =
          ((Num 0 + nsin (Num (time handFrame * 0.01) + p_y weaver * Num 0.1) * Num 0.5
              * Num (scaleFactor handFrame),
            Num 0 + ncos (Num (time handFrame * 0.01) + p_x weaver * Num 0.1) * Num 0.5
              * Num (scaleFactor handFrame)),
           0)"
    using f s t d by blast
  then have a: "computeForce rndHalf (withMode ''SPIRAL'' handFrame) weaver 0 =
        ((Num (sin 2 / 2), Num (cos 1 / 2)), 0)"
    by (simp add: c v)
  have "structureForce (withMode ''SPIRAL'' handFrame) weaver (Num 3) (Num 4) 5 (59 / 60) =
            (Num (0 + sin (time handFrame * 0.01 + 20 * 0.1) * 0.5 * scaleFactor handFrame),
             Num (0 + cos (time handFrame * 0.01 + 10 * 0.1) * 0.5 * scaleFactor handFrame))"
    using f c by blast
  then have b: "structureForce (withMode ''SPIRAL'' handFrame) weaver (Num 3) (Num 4) 5 (59 / 60) =
        (Num (sin 2 / 2), Num (cos 1 / 2))"
    by (simp add: v)
  show ?thesis using m u s t d c a b by blast
qed

subsection \<open>The theme controller\<close>

lemma render_trigger:
  assumes "render rnd inp st = Inr (st', reqs, cmds)" "detection inp = Some d"
  shows "reqs = snd (geminiTrigger (timestamp inp) d
                      (st\<lparr>lastTime := timestamp inp, handPoints := detectedTips d\<rparr>))
         \<and> lastThemeUpdate st' = lastThemeUpdate (fst (geminiTrigger (timestamp inp) d
                      (st\<lparr>lastTime := timestamp inp, handPoints := detectedTips d\<rparr>)))"
  using assms
  by (auto simp: render_unfold handDetection_def split: sum.splits prod.splits)

text \<open>
  C6: in a frame with at least one hand detected, when less than 4000 ms have
  passed since the last theme update no request is issued and the timer
  stays; when more than 4000 ms have passed exactly one request is issued and
  the timer is set to the time of the frame at once; the arrival of a
  response does not touch the timer.
\<close>

theorem trigger_cooldown:
  assumes "unitInterval rnd" "detection inp = Some d" "0 < handCount d"
  shows "\<exists>st' reqs cmds. render rnd inp st = Inr (st', reqs, cmds)
     \<and> (timestamp inp - lastThemeUpdate st < 4000 \<longrightarrow>
          reqs = [] \<and> lastThemeUpdate st' = lastThemeUpdate st)
     \<and> (4000 < timestamp inp - lastThemeUpdate st \<longrightarrow>
          length reqs = 1 \<and> lastThemeUpdate st' = timestamp inp)
     \<and> lastThemeUpdate (fst (onThemeResult r st')) = lastThemeUpdate st'"
proof -
  obtain st' reqs cmds where r: "render rnd inp st = Inr (st', reqs, cmds)"
    using render_returns[OF assms(1)] by blast
  have o: "lastThemeUpdate (fst (onThemeResult r st')) = lastThemeUpdate st'"
    by (simp add: onThemeResult_def split: option.splits)
  show ?thesis
    using r render_trigger[OF r assms(2)] assms(3) o
    by (auto simp: geminiTrigger_def Let_def)
qed

theorem trigger_cooldown_witness:
  "unitInterval rndHalf
   \<and> detection (frameAt 3000 (Some oneHand)) = Some oneHand \<and> 0 < handCount oneHand
   \<and> (\<exists>st' reqs cmds. render rndHalf (frameAt 3000 (Some oneHand)) startState = Inr (st', reqs, cmds)
         \<and> reqs = [] \<and> lastThemeUpdate st' = 0)
   \<and> (\<exists>st' reqs cmds. render rndHalf (frameAt 4016 (Some oneHand)) startState = Inr (st', reqs, cmds)
         \<and> length reqs = 1 \<and> lastThemeUpdate st' = 4016)"
proof -
  have d: "detection (frameAt t (Some oneHand)) = Some oneHand" for t by (simp add: frameAt_def)
  have h: "0 < handCount oneHand" by (simp add: oneHand_def)
  have a: "\<exists>st' reqs cmds. render rndHalf (frameAt 3000 (Some oneHand)) startState = Inr (st', reqs, cmds)
         \<and> reqs = [] \<and> lastThemeUpdate st' = 0"
    using trigger_cooldown[OF rndHalf_unit d[of 3000] h, of startState None]
    by (auto simp: frameAt_def startState_def)
  have b: "\<exists>st' reqs cmds. render rndHalf (frameAt 4016 (Some oneHand)) startState = Inr (st', reqs, cmds)
         \<and> length reqs = 1 \<and> lastThemeUpdate st' = 4016"
    using trigger_cooldown[OF rndHalf_unit d[of 4016] h, of startState None]
    by (auto simp: frameAt_def startState_def)
  show ?thesis using rndHalf_unit d h a b by blast
qed

subsection \<open>The result of a request\<close>

text \<open>
  When a request was issued at time \<open>t\<close> and has no result (the call rejects,
  the response has no text, or the text is no JSON),
  \<open>generateThemeFromGesture\<close> returns \<open>null\<close> instead of throwing, the
  callback throws nothing and leaves the state as the frame left it, with the
  theme of before the request, and the timer stands at \<open>t\<close>: no frame up to
  \<open>t + 4000\<close> issues a request.
\<close>

lemma request_without_result:
  assumes "noResult JSON_parse response" "0 < handCount d" "4000 < t - lastThemeUpdate st"
  shows "generateThemeFromGesture JSON_parse response n intensity spread = None
    \<and> length (snd (geminiTrigger t d st)) = 1
    \<and> onThemeResult (generateThemeFromGesture JSON_parse response n intensity spread)
         (fst (geminiTrigger t d st)) = (fst (geminiTrigger t d st), None)
    \<and> theme (fst (geminiTrigger t d st)) = theme st
    \<and> lastThemeUpdate (fst (geminiTrigger t d st)) = t
    \<and> (\<forall>t' d'. t' - t \<le> 4000 \<longrightarrow>
          geminiTrigger t' d'
            (fst (onThemeResult (generateThemeFromGesture JSON_parse response n intensity spread)
               (fst (geminiTrigger t d st))))
          = (fst (geminiTrigger t d st), []))"
proof -
  have g: "generateThemeFromGesture JSON_parse response n intensity spread = None"
    using assms(1)
    by (auto simp: noResult_def generateThemeFromGesture_def split: reply.splits option.splits)
  show ?thesis using assms(2,3) by (simp add: g onThemeResult_def geminiTrigger_def Let_def)
qed

text \<open>
  C7 fails in the code: a response that is JSON of the wrong shape is a
  failed request for the specification, but \<open>generateThemeFromGesture\<close>
  returns whatever \<open>JSON.parse\<close> returns, unchecked. For the response
  \<open>spiralText\<close>, an object with the unknown mode \<open>SPIRAL\<close> and no
  description, the result is that object; the callback replaces the theme by
  it and then throws a \<open>TypeError\<close> at \<open>newTheme.description.toUpperCase()\<close>,
  with the status text left at that of the request. The timer is not
  touched.
\<close>

theorem unchecked_theme:
  "generateThemeFromGesture spiralJson (Resolves (Some spiralText)) 1 (1 / 2) (9 / 20)
     = Some spiralTheme
   \<and> onThemeResult
        (generateThemeFromGesture spiralJson (Resolves (Some spiralText)) 1 (1 / 2) (9 / 20))
        (fst (geminiTrigger 5000 oneHand startState))
     = ((fst (geminiTrigger 5000 oneHand startState))\<lparr>theme := spiralTheme\<rparr>, Some TypeError)
   \<and> theme (fst (geminiTrigger 5000 oneHand startState)) = DEFAULT_THEME
   \<and> spiralTheme \<noteq> DEFAULT_THEME
   \<and> mode spiralTheme \<noteq> WEAVE \<and> mode spiralTheme \<noteq> CRYSTALLIZE \<and> mode spiralTheme \<noteq> FRAGMENT
   \<and> mode spiralTheme \<noteq> VOID \<and> mode spiralTheme \<noteq> RESONANCE
   \<and> lastThemeUpdate (fst (geminiTrigger 5000 oneHand startState)) = 5000"
  by (simp add: generateThemeFromGesture_def spiralJson_def spiralText_def spiralTheme_def
      onThemeResult_def geminiTrigger_def oneHand_def startState_def DEFAULT_THEME_def
      WEAVE_def CRYSTALLIZE_def FRAGMENT_def VOID_def RESONANCE_def Let_def)

end
